theory Spec2Isabelle
  imports
    Main
    "HOL-Library.Multiset"
    "HOL-Library.Char_ord"
    "HOL-Library.List_Lexorder"
begin

section \<open>Errors\<close>

text \<open>
  Every \<^verbatim>\<open>throw new Error(...)\<close> of the sources is a constructor here, named after the
  message it carries. \<open>TypeError\<close> is the error the JavaScript runtime raises itself
  (calling something that is not a function, reading a property of \<^verbatim>\<open>undefined\<close>).
\<close>

datatype error =
    CannotAct                  \<comment> \<open>"... nao pode agir no momento" (\<^verbatim>\<open>takeAction\<close>)\<close>
  | InvalidAction string       \<comment> \<open>"Acao invalida: ..."\<close>
  | CannotCheck                \<comment> \<open>"Nao pode dar check, precisa igualar a aposta"\<close>
  | RaiseBelowMin int int      \<comment> \<open>"Raise minimo: ... (atual: ...)" (\<^verbatim>\<open>PokerPlayer.raise\<close>)\<close>
  | InsufficientCards nat nat  \<comment> \<open>"Baralho tem apenas ... cartas, tentou distribuir ..."\<close>
  | NotInitialized             \<comment> \<open>"Jogo nao inicializado"\<close>
  | NotTimeToAct               \<comment> \<open>"Nao e hora de agir"\<close>
  | NotYourTurn                \<comment> \<open>"Nao e sua vez"\<close>
  | PlayerNotFound             \<comment> \<open>"Jogador nao encontrado"\<close>
  | InsufficientChipsForCall   \<comment> \<open>"Fichas insuficientes para call"\<close>
  | BetAfterBets               \<comment> \<open>"Nao pode fazer bet quando ja ha apostas"\<close>
  | InvalidBetAmount           \<comment> \<open>"Valor de bet invalido"\<close>
  | InsufficientChips          \<comment> \<open>"Fichas insuficientes"\<close>
  | BetBelowMin int            \<comment> \<open>"Bet minimo: ..."\<close>
  | RaiseWithoutBets           \<comment> \<open>"Nao pode fazer raise sem apostas anteriores"\<close>
  | RaiseMinimum int           \<comment> \<open>"Raise minimo: ..." (\<^verbatim>\<open>validateAction\<close>)\<close>
  | NoChipsForAllIn            \<comment> \<open>"Sem fichas para all-in"\<close>
  | TypeError

section \<open>Cards (poker-engine.js)\<close>

datatype suit = HEARTS | DIAMONDS | CLUBS | SPADES

datatype rank = R2 | R3 | R4 | R5 | R6 | R7 | R8 | R9 | R10 | RJ | RQ | RK | RA

text \<open>\<^verbatim>\<open>RANKS[rank].value\<close> and the key of \<^verbatim>\<open>RANKS\<close> itself.\<close>

fun rank_value :: "rank \<Rightarrow> int" where
  "rank_value R2 = 2" | "rank_value R3 = 3" | "rank_value R4 = 4" | "rank_value R5 = 5"
| "rank_value R6 = 6" | "rank_value R7 = 7" | "rank_value R8 = 8" | "rank_value R9 = 9"
| "rank_value R10 = 10" | "rank_value RJ = 11" | "rank_value RQ = 12" | "rank_value RK = 13"
| "rank_value RA = 14"

fun rank_key :: "rank \<Rightarrow> string" where
  "rank_key R2 = ''2''" | "rank_key R3 = ''3''" | "rank_key R4 = ''4''" | "rank_key R5 = ''5''"
| "rank_key R6 = ''6''" | "rank_key R7 = ''7''" | "rank_key R8 = ''8''" | "rank_key R9 = ''9''"
| "rank_key R10 = ''10''" | "rank_key RJ = ''J''" | "rank_key RQ = ''Q''" | "rank_key RK = ''K''"
| "rank_key RA = ''A''"

fun suit_key :: "suit \<Rightarrow> string" where
  "suit_key HEARTS = ''HEARTS''" | "suit_key DIAMONDS = ''DIAMONDS''"
| "suit_key CLUBS = ''CLUBS''" | "suit_key SPADES = ''SPADES''"

text \<open>
  \<^verbatim>\<open>class PokerCard\<close>: the constructor stores \<open>suit\<close> and \<open>rank\<close>; \<open>value\<close> and \<open>code\<close>
  are computed from them once and never change, so they are functions of the card here.
  The display fields (\<^verbatim>\<open>symbol\<close>, \<^verbatim>\<open>color\<close>, \<^verbatim>\<open>display\<close>) hold non-ASCII suit symbols and
  are read only for log lines and the \<^verbatim>\<open>description\<close> string; they are left out.
\<close>

record PokerCard =
  suit :: suit
  rank :: rank

definition card_value :: "PokerCard \<Rightarrow> int" where
  "card_value c = rank_value (rank c)"

definition code :: "PokerCard \<Rightarrow> string" where
  "code c = rank_key (rank c) @ [hd (suit_key (suit c))]"

section \<open>Hand evaluator (poker-engine.js, class HandEvaluator)\<close>

text \<open>\<^verbatim>\<open>POKER_HANDS\<close>: the ten categories with their \<^verbatim>\<open>value\<close> and \<^verbatim>\<open>name\<close>.\<close>

datatype handType =
    ROYAL_FLUSH | STRAIGHT_FLUSH | FOUR_OF_A_KIND | FULL_HOUSE | FLUSH
  | STRAIGHT | THREE_OF_A_KIND | TWO_PAIR | ONE_PAIR | HIGH_CARD

fun handType_value :: "handType \<Rightarrow> int" where
  "handType_value ROYAL_FLUSH = 10" | "handType_value STRAIGHT_FLUSH = 9"
| "handType_value FOUR_OF_A_KIND = 8" | "handType_value FULL_HOUSE = 7"
| "handType_value FLUSH = 6" | "handType_value STRAIGHT = 5"
| "handType_value THREE_OF_A_KIND = 4" | "handType_value TWO_PAIR = 3"
| "handType_value ONE_PAIR = 2" | "handType_value HIGH_CARD = 1"

fun handType_name :: "handType \<Rightarrow> string" where
  "handType_name ROYAL_FLUSH = ''Royal Flush''" | "handType_name STRAIGHT_FLUSH = ''Straight Flush''"
| "handType_name FOUR_OF_A_KIND = ''Quadra''" | "handType_name FULL_HOUSE = ''Full House''"
| "handType_name FLUSH = ''Flush''" | "handType_name STRAIGHT = ''Sequ'' @ [CHR 0xEA] @ ''ncia''"
| "handType_name THREE_OF_A_KIND = ''Trinca''" | "handType_name TWO_PAIR = ''Dois Pares''"
| "handType_name ONE_PAIR = ''Par''" | "handType_name HIGH_CARD = ''Carta Alta''"

text \<open>
  The object \<^verbatim>\<open>finalizeResult\<close> returns. \<^verbatim>\<open>rank\<close> and \<^verbatim>\<open>value\<close> are named \<open>handRank\<close> and
  \<open>handValue\<close> (a card already has a \<open>rank\<close>); \<^verbatim>\<open>description\<close> is a display string and is
  left out.
\<close>

record HandResult =
  cards :: "PokerCard list"
  hand :: string
  handRank :: int
  handValue :: int

text \<open>
  \<^verbatim>\<open>cards.sort((a, b) => b.value - a.value)\<close>: descending by value; the sort of the
  language is stable, and so is \<open>sort_key\<close>.
\<close>

definition sortDesc :: "PokerCard list \<Rightarrow> PokerCard list" where
  "sortDesc cs = sort_key (\<lambda>c. - card_value c) cs"

text \<open>The keys of an object in the order \<^verbatim>\<open>for ... in\<close> visits string keys: first insertion first.\<close>

definition firstSeen :: "'a list \<Rightarrow> 'a list" where
  "firstSeen xs = rev (remdups (rev xs))"

text \<open>
  \<^verbatim>\<open>groupByValue\<close> keys its groups by the card value, an integer-like property name:
  \<^verbatim>\<open>for (let value in groups)\<close> visits such keys in ascending numeric order. Each group holds
  its cards in the order of the argument.
\<close>

definition groupKeys :: "PokerCard list \<Rightarrow> int list" where
  "groupKeys cs = sort (remdups (map card_value cs))"

definition groupOf :: "PokerCard list \<Rightarrow> int \<Rightarrow> PokerCard list" where
  "groupOf cs v = filter (\<lambda>c. card_value c = v) cs"

definition suitGroup :: "PokerCard list \<Rightarrow> suit \<Rightarrow> PokerCard list" where
  "suitGroup cs s = filter (\<lambda>c. suit c = s) cs"

fun isConsecutive :: "int list \<Rightarrow> bool" where
  "isConsecutive (x # y # ys) = (if x - 1 \<noteq> y then False else isConsecutive (y # ys))"
| "isConsecutive _ = True"

text \<open>
  \<^verbatim>\<open>checkStraight\<close> sorts its argument in place before it looks at it; the caller sees the
  sorted array afterwards (\<open>evaluate\<close> below passes it on). The result is computed from the
  sorted cards: \<open>uniqueCards\<close> keeps the first card of each value (\<open>seen\<close> is the set of
  values met so far), the windows of five are tried from the highest, then the wheel.
\<close>

fun uniqueCardsFrom :: "int list \<Rightarrow> PokerCard list \<Rightarrow> PokerCard list" where
  "uniqueCardsFrom seen [] = []"
| "uniqueCardsFrom seen (c # cs) =
     (if card_value c \<in> set seen then uniqueCardsFrom seen cs
      else c # uniqueCardsFrom (card_value c # seen) cs)"

definition uniqueCards :: "PokerCard list \<Rightarrow> PokerCard list" where
  "uniqueCards sortedCards = uniqueCardsFrom [] sortedCards"

definition checkStraight :: "PokerCard list \<Rightarrow> PokerCard list option" where
  "checkStraight cs =
     (let u = uniqueCards (sortDesc cs);
          windows = map (\<lambda>i. take 5 (drop i u)) [0 ..< length u - 4]
      in case List.find (\<lambda>sq. isConsecutive (map card_value sq)) windows of
           Some sq \<Rightarrow> Some sq
         | None \<Rightarrow>
            (if (\<exists>c \<in> set u. card_value c = 14) \<and> (\<exists>c \<in> set u. card_value c = 2) \<and>
                (\<exists>c \<in> set u. card_value c = 3) \<and> (\<exists>c \<in> set u. card_value c = 4) \<and>
                (\<exists>c \<in> set u. card_value c = 5)
             then Some (List.map_filter (\<lambda>v. List.find (\<lambda>c. card_value c = v) u) [14, 5, 4, 3, 2])
             else None))"

definition checkStraightFlush :: "PokerCard list \<Rightarrow> PokerCard list option" where
  "checkStraightFlush cs =
     (case List.map_filter
             (\<lambda>s. if length (suitGroup cs s) \<ge> 5 then checkStraight (suitGroup cs s) else None)
             (firstSeen (map suit cs)) of
        [] \<Rightarrow> None
      | straight # _ \<Rightarrow> Some (take 5 straight))"

definition checkRoyalFlush :: "PokerCard list \<Rightarrow> PokerCard list option" where
  "checkRoyalFlush cs =
     (case checkStraightFlush cs of
        None \<Rightarrow> None
      | Some straightFlush \<Rightarrow>
          (let values = map card_value straightFlush
           in if 14 \<in> set values \<and> 10 \<in> set values \<and> 13 \<in> set values \<and> length straightFlush = 5
              then Some straightFlush else None))"

text \<open>
  \<^verbatim>\<open>checkFourOfAKind\<close> and \<^verbatim>\<open>checkTwoPair\<close> put \<^verbatim>\<open>remaining[0]\<close> into the array they
  return; with no card left that entry is \<^verbatim>\<open>undefined\<close>. Their arrays are lists of
  \<open>PokerCard option\<close>, \<open>None\<close> being \<^verbatim>\<open>undefined\<close>.
\<close>

definition kickerOf :: "PokerCard list \<Rightarrow> PokerCard option" where
  "kickerOf remaining = (case remaining of [] \<Rightarrow> None | k # _ \<Rightarrow> Some k)"

definition checkFourOfAKind :: "PokerCard list \<Rightarrow> PokerCard option list option" where
  "checkFourOfAKind cs =
     (case filter (\<lambda>v. length (groupOf cs v) \<ge> 4) (groupKeys cs) of
        [] \<Rightarrow> None
      | v # _ \<Rightarrow>
          (let four = take 4 (groupOf cs v);
               remaining = sortDesc (filter (\<lambda>c. card_value c \<noteq> v) cs);
               kicker = kickerOf remaining
           in Some (take 5 (map Some four @ [kicker]))))"

text \<open>
  \<^verbatim>\<open>checkFullHouse\<close>: both loops keep the candidate of the greatest value; the keys come in
  ascending order, so that is the last key that qualifies.
\<close>

definition checkFullHouse :: "PokerCard list \<Rightarrow> PokerCard list option" where
  "checkFullHouse cs =
     (case rev (filter (\<lambda>v. length (groupOf cs v) \<ge> 3) (groupKeys cs)) of
        [] \<Rightarrow> None
      | t # _ \<Rightarrow>
          (case rev (filter (\<lambda>v. length (groupOf cs v) \<ge> 2 \<and> v \<noteq> t) (groupKeys cs)) of
             [] \<Rightarrow> None
           | p # _ \<Rightarrow> Some (take 3 (groupOf cs t) @ take 2 (groupOf cs p))))"

definition checkFlush :: "PokerCard list \<Rightarrow> PokerCard list option" where
  "checkFlush cs =
     (case filter (\<lambda>s. length (suitGroup cs s) \<ge> 5) (firstSeen (map suit cs)) of
        [] \<Rightarrow> None
      | s # _ \<Rightarrow> Some (take 5 (sortDesc (suitGroup cs s))))"

definition checkThreeOfAKind :: "PokerCard list \<Rightarrow> PokerCard list option" where
  "checkThreeOfAKind cs =
     (case filter (\<lambda>v. length (groupOf cs v) \<ge> 3) (groupKeys cs) of
        [] \<Rightarrow> None
      | v # _ \<Rightarrow>
          (let three = take 3 (groupOf cs v);
               remaining = take 2 (sortDesc (filter (\<lambda>c. card_value c \<noteq> v) cs))
           in Some (three @ remaining)))"

text \<open>
  \<^verbatim>\<open>checkTwoPair\<close>: the pairs are collected in ascending key order and sorted descending by
  value; the values are distinct, so that is the reversed list.
\<close>

definition checkTwoPair :: "PokerCard list \<Rightarrow> PokerCard option list option" where
  "checkTwoPair cs =
     (let pairs = filter (\<lambda>v. length (groupOf cs v) \<ge> 2) (groupKeys cs)
      in if length pairs \<ge> 2 then
           (let bestPairs = take 2 (rev pairs);
                kicker = kickerOf (sortDesc (filter (\<lambda>c. card_value c \<notin> set bestPairs) cs))
            in Some (take 5 (map Some (take 2 (groupOf cs (bestPairs ! 0)) @
                                       take 2 (groupOf cs (bestPairs ! 1))) @ [kicker])))
         else None)"

definition checkOnePair :: "PokerCard list \<Rightarrow> PokerCard list option" where
  "checkOnePair cs =
     (case filter (\<lambda>v. length (groupOf cs v) \<ge> 2) (groupKeys cs) of
        [] \<Rightarrow> None
      | v # _ \<Rightarrow>
          (let pair = take 2 (groupOf cs v);
               remaining = take 3 (sortDesc (filter (\<lambda>c. card_value c \<noteq> v) cs))
           in Some (pair @ remaining)))"

definition checkHighCard :: "PokerCard list \<Rightarrow> PokerCard list" where
  "checkHighCard cs = take 5 (sortDesc cs)"

text \<open>
  \<^verbatim>\<open>calculateHandValue\<close>: \<^verbatim>\<open>handRank * 1000000\<close> plus \<^verbatim>\<open>cards[i].value * Math.pow(14, 4 - i)\<close>
  over the cards sorted descending. Every caller passes at most five cards, so the exponent
  \<open>4 - i\<close> is a natural number; a sixth card would add a fraction, which the integer
  model does not represent (the exponent is cut off at 0).
\<close>

fun kickerSum :: "nat \<Rightarrow> int list \<Rightarrow> int" where
  "kickerSum i [] = 0"
| "kickerSum i (v # vs) = v * 14 ^ (4 - i) + kickerSum (Suc i) vs"

definition calculateHandValue :: "PokerCard list \<Rightarrow> int \<Rightarrow> int" where
  "calculateHandValue cs hRank = hRank * 1000000 + kickerSum 0 (map card_value (sortDesc cs))"

text \<open>
  \<^verbatim>\<open>finalizeResult\<close>: \<^verbatim>\<open>cards.slice(0, 5)\<close> is taken before \<^verbatim>\<open>calculateHandValue\<close> sorts the
  array, so the result keeps the order the check built. An \<^verbatim>\<open>undefined\<close> entry in the array
  is moved to the end by the sort and then read as \<^verbatim>\<open>cards[i].value\<close>: a \<open>TypeError\<close>.
\<close>

definition finalizeResult :: "PokerCard option list \<Rightarrow> handType \<Rightarrow> error + HandResult" where
  "finalizeResult cs t =
     (if None \<in> set cs then Inl TypeError
      else Inr \<lparr> cards = take 5 (map the cs),
                 hand = handType_name t,
                 handRank = handType_value t,
                 handValue = calculateHandValue (map the cs) (handType_value t) \<rparr>)"

text \<open>
  \<^verbatim>\<open>getCacheKey\<close>: the codes of the hole cards, sorted as strings and joined, a bar, and the
  same for the community cards.
\<close>

definition getCacheKey :: "PokerCard list \<Rightarrow> PokerCard list \<Rightarrow> string" where
  "getCacheKey hnd community = concat (sort (map code hnd)) @ ''|'' @ concat (sort (map code community))"

text \<open>
  \<^verbatim>\<open>evaluate\<close>: a cached result is returned as it is; otherwise the checks run from the
  highest category down, the first that matches is finalized, stored and returned. The
  evaluator's only state is \<open>handCache\<close>, passed in and returned. \<^verbatim>\<open>checkStraight(allCards)\<close>
  leaves \<open>allCards\<close> sorted, so the checks after it see \<open>sortDesc allCards\<close>.
\<close>

definition store :: "(string \<rightharpoonup> HandResult) \<Rightarrow> string \<Rightarrow> error + HandResult
    \<Rightarrow> (error + HandResult) \<times> (string \<rightharpoonup> HandResult)" where
  "store handCache cacheKey r =
     (case r of Inl e \<Rightarrow> (Inl e, handCache) | Inr res \<Rightarrow> (Inr res, handCache(cacheKey \<mapsto> res)))"

definition evaluate :: "(string \<rightharpoonup> HandResult) \<Rightarrow> PokerCard list \<Rightarrow> PokerCard list
    \<Rightarrow> (error + HandResult) \<times> (string \<rightharpoonup> HandResult)" where
  "evaluate handCache hnd community =
     (let cacheKey = getCacheKey hnd community in
      case handCache cacheKey of
        Some cached \<Rightarrow> (Inr cached, handCache)
      | None \<Rightarrow>
        (let allCards = hnd @ community in
         case checkRoyalFlush allCards of
           Some r \<Rightarrow> store handCache cacheKey (finalizeResult (map Some r) ROYAL_FLUSH)
         | None \<Rightarrow>
         (case checkStraightFlush allCards of
           Some r \<Rightarrow> store handCache cacheKey (finalizeResult (map Some r) STRAIGHT_FLUSH)
         | None \<Rightarrow>
         (case checkFourOfAKind allCards of
           Some r \<Rightarrow> store handCache cacheKey (finalizeResult r FOUR_OF_A_KIND)
         | None \<Rightarrow>
         (case checkFullHouse allCards of
           Some r \<Rightarrow> store handCache cacheKey (finalizeResult (map Some r) FULL_HOUSE)
         | None \<Rightarrow>
         (case checkFlush allCards of
           Some r \<Rightarrow> store handCache cacheKey (finalizeResult (map Some r) FLUSH)
         | None \<Rightarrow>
         (case checkStraight allCards of
           Some r \<Rightarrow> store handCache cacheKey (finalizeResult (map Some r) STRAIGHT)
         | None \<Rightarrow>
         (let sortedCards = sortDesc allCards in
          case checkThreeOfAKind sortedCards of
           Some r \<Rightarrow> store handCache cacheKey (finalizeResult (map Some r) THREE_OF_A_KIND)
         | None \<Rightarrow>
         (case checkTwoPair sortedCards of
           Some r \<Rightarrow> store handCache cacheKey (finalizeResult r TWO_PAIR)
         | None \<Rightarrow>
         (case checkOnePair sortedCards of
           Some r \<Rightarrow> store handCache cacheKey (finalizeResult (map Some r) ONE_PAIR)
         | None \<Rightarrow>
           store handCache cacheKey
             (finalizeResult (map Some (checkHighCard sortedCards)) HIGH_CARD)))))))))))"

text \<open>
  \<^verbatim>\<open>compareHands\<close>: category first, then the value, then the cards of both hands sorted
  descending, position by position up to the shorter length. (The sort is in place on the
  hands' own arrays; the returned number is all the model keeps.)
\<close>

fun compareCards :: "int list \<Rightarrow> int list \<Rightarrow> int" where
  "compareCards (x # xs) (y # ys) = (if x \<noteq> y then (if x > y then 1 else -1) else compareCards xs ys)"
| "compareCards _ _ = 0"

definition compareHands :: "HandResult \<Rightarrow> HandResult \<Rightarrow> int" where
  "compareHands hand1 hand2 =
     (if handRank hand1 \<noteq> handRank hand2 then (if handRank hand1 > handRank hand2 then 1 else -1)
      else if handValue hand1 \<noteq> handValue hand2 then (if handValue hand1 > handValue hand2 then 1 else -1)
      else compareCards (map card_value (sortDesc (cards hand1)))
                        (map card_value (sortDesc (cards hand2))))"

section \<open>The two decks\<close>

subsection \<open>The engine deck (poker-engine.js, class PokerDeck)\<close>

record PokerDeck =
  deckCards :: "PokerCard list"
  burnedCards :: "PokerCard list"
  usedCards :: "PokerCard list"

text \<open>
  \<^verbatim>\<open>deal(count)\<close> of poker-engine.js: throws when \<open>count\<close> exceeds the cards left, otherwise
  removes the first \<open>count\<close> cards and appends them to \<open>usedCards\<close>. The count (\<open>cnt\<close>) is a natural
  number here. The deck is returned with the result; on the error it is the deck as it was.
\<close>

definition deal :: "nat \<Rightarrow> PokerDeck \<Rightarrow> (error + PokerCard list) \<times> PokerDeck" where
  "deal cnt d =
     (if cnt > length (deckCards d) then (Inl (InsufficientCards (length (deckCards d)) cnt), d)
      else (let dealtCards = take cnt (deckCards d)
            in (Inr dealtCards,
                d\<lparr> deckCards := drop cnt (deckCards d),
                   usedCards := usedCards d @ dealtCards \<rparr>)))"

subsection \<open>The table deck (baralho-texas.js, class PokerDeck)\<close>

text \<open>
  The card of baralho-texas.js has a mutable \<open>faceUp\<close> flag on top of suit and rank; its
  deck is the one whose \<^verbatim>\<open>deal(count, faceUp)\<close> the game manager calls.
\<close>

record TableCard =
  tSuit :: suit
  tRank :: rank
  faceUp :: bool

record TableDeck =
  tCards :: "TableCard list"
  tBurnedCards :: "TableCard list"
  tUsedCards :: "TableCard list"

text \<open>
  \<^verbatim>\<open>shuffle()\<close>, Fisher-Yates from the end: each round draws
  \<^verbatim>\<open>Math.floor(Math.random() * currentIndex)\<close>, decrements \<open>currentIndex\<close> and swaps the two
  positions. The draws come from a list \<open>rnd\<close> of natural numbers, one per round, reduced
  modulo \<open>currentIndex\<close> as \<^verbatim>\<open>Math.random() < 1\<close> guarantees (0 when the list runs out):
  every run of the source is the model's run on some list.
\<close>

fun shuffleFrom :: "nat \<Rightarrow> nat list \<Rightarrow> 'a list \<Rightarrow> 'a list" where
  "shuffleFrom 0 rnd xs = xs"
| "shuffleFrom (Suc currentIndex) rnd xs =
     (let randomIndex = (case rnd of [] \<Rightarrow> 0 | r # _ \<Rightarrow> r mod Suc currentIndex)
      in shuffleFrom currentIndex (tl rnd)
           (xs[currentIndex := xs ! randomIndex, randomIndex := xs ! currentIndex]))"

definition shuffle :: "nat list \<Rightarrow> 'a list \<Rightarrow> 'a list" where
  "shuffle rnd xs = shuffleFrom (length xs) rnd xs"

text \<open>\<^verbatim>\<open>restoreUsedCards()\<close>: remaining, used and burned cards are joined and shuffled.\<close>

definition restoreUsedCards :: "nat list \<Rightarrow> TableDeck \<Rightarrow> TableDeck" where
  "restoreUsedCards rnd d =
     \<lparr> tCards = shuffle rnd (tCards d @ tUsedCards d @ tBurnedCards d),
       tBurnedCards = [],
       tUsedCards = [] \<rparr>"

text \<open>
  \<^verbatim>\<open>deal(count, faceUp)\<close> of baralho-texas.js: with fewer than \<open>count\<close> cards left it logs a
  warning and calls \<open>restoreUsedCards\<close>; then it removes the first \<open>count\<close> cards (as many as
  there are), sets their \<open>faceUp\<close> and appends them to \<open>usedCards\<close>. It has no error exit.
\<close>

definition tableDeal :: "nat list \<Rightarrow> nat \<Rightarrow> bool \<Rightarrow> TableDeck \<Rightarrow> TableCard list \<times> TableDeck" where
  "tableDeal rnd cnt fUp d =
     (let d1 = (if length (tCards d) < cnt then restoreUsedCards rnd d else d);
          dealtCards = map (\<lambda>c. c\<lparr> faceUp := fUp \<rparr>) (take cnt (tCards d1))
      in (dealtCards,
          d1\<lparr> tCards := drop cnt (tCards d1),
              tUsedCards := tUsedCards d1 @ dealtCards \<rparr>))"

section \<open>Pot ledger (pot.js)\<close>

type_synonym playerId = string

text \<open>
  Chip amounts are JavaScript numbers; the game only ever adds, subtracts and compares whole
  chips, so they are integers here. \<^verbatim>\<open>Math.floor(a / b)\<close> is \<open>div\<close>. The remainder operator
  \<^verbatim>\<open>%\<close> takes the sign of the dividend, unlike \<open>mod\<close>:
\<close>

definition jsRem :: "int \<Rightarrow> int \<Rightarrow> int" where
  "jsRem a b = sgn a * (\<bar>a\<bar> mod \<bar>b\<bar>)"

subsection \<open>class PlayerContribution\<close>

record RoundAmounts =
  preflop :: int
  flop :: int
  turn :: int
  river :: int

record PlayerContribution =
  cPlayerId :: playerId
  cAmount :: int
  isEligible :: bool
  hasWon :: bool
  cWonAmount :: int
  contributionsByRound :: RoundAmounts

definition newPlayerContribution :: "playerId \<Rightarrow> PlayerContribution" where
  "newPlayerContribution pid =
     \<lparr> cPlayerId = pid, cAmount = 0, isEligible = True, hasWon = False, cWonAmount = 0,
       contributionsByRound = \<lparr> preflop = 0, flop = 0, turn = 0, river = 0 \<rparr> \<rparr>"

text \<open>\<^verbatim>\<open>addContribution(amount, round)\<close>; a round name that is no key of the table is skipped.\<close>

definition addToRound :: "string \<Rightarrow> int \<Rightarrow> RoundAmounts \<Rightarrow> RoundAmounts" where
  "addToRound rnd amt r =
     (if rnd = ''preflop'' then r\<lparr> preflop := preflop r + amt \<rparr>
      else if rnd = ''flop'' then r\<lparr> flop := flop r + amt \<rparr>
      else if rnd = ''turn'' then r\<lparr> turn := turn r + amt \<rparr>
      else if rnd = ''river'' then r\<lparr> river := river r + amt \<rparr>
      else r)"

definition addContribution :: "int \<Rightarrow> string \<Rightarrow> PlayerContribution \<Rightarrow> PlayerContribution" where
  "addContribution amt rnd c =
     c\<lparr> cAmount := cAmount c + amt,
        contributionsByRound := addToRound rnd amt (contributionsByRound c) \<rparr>"

subsection \<open>class Pot\<close>

text \<open>
  The pot's \<^verbatim>\<open>id\<close> is \<^verbatim>\<open>'main'\<close> or \<^verbatim>\<open>'side-N'\<close>. \<open>playerContributions\<close> is a \<^verbatim>\<open>Map\<close> and
  \<open>eligiblePlayers\<close> a \<^verbatim>\<open>Set\<close>, both of which keep insertion order: an association list
  with distinct keys and a list without repetition. \<^verbatim>\<open>createdAt\<close> (the wall clock) is only
  serialized and is left out.
\<close>

datatype pot_id = MainId | SideId nat

record Pot =
  potId :: pot_id
  level :: nat
  amount :: int
  playerContributions :: "(playerId \<times> PlayerContribution) list"
  eligiblePlayers :: "playerId list"
  winners :: "playerId list"
  isDistributed :: bool
  isLocked :: bool

definition newPot :: "pot_id \<Rightarrow> nat \<Rightarrow> Pot" where
  "newPot i lvl =
     \<lparr> potId = i, level = lvl, amount = 0, playerContributions = [], eligiblePlayers = [],
       winners = [], isDistributed = False, isLocked = False \<rparr>"

fun mapSet :: "'k \<Rightarrow> 'v \<Rightarrow> ('k \<times> 'v) list \<Rightarrow> ('k \<times> 'v) list" where
  "mapSet k v [] = [(k, v)]"
| "mapSet k v ((k', v') # kvs) = (if k' = k then (k, v) # kvs else (k', v') # mapSet k v kvs)"

definition setAdd :: "'a \<Rightarrow> 'a list \<Rightarrow> 'a list" where
  "setAdd x xs = (if x \<in> set xs then xs else xs @ [x])"

text \<open>\<^verbatim>\<open>addPlayerContribution\<close> returns the player's new amount in this pot (0 from a locked pot).\<close>

definition addPlayerContribution :: "playerId \<Rightarrow> int \<Rightarrow> string \<Rightarrow> Pot \<Rightarrow> int \<times> Pot" where
  "addPlayerContribution pid amt rnd pot =
     (if isLocked pot then (0, pot)
      else
        (let contribution = (case map_of (playerContributions pot) pid of
                               None \<Rightarrow> newPlayerContribution pid
                             | Some c \<Rightarrow> c);
             contribution' = addContribution amt rnd contribution
         in (cAmount contribution',
             pot\<lparr> playerContributions := mapSet pid contribution' (playerContributions pot),
                  amount := amount pot + amt,
                  eligiblePlayers := (if amt > 0 then setAdd pid (eligiblePlayers pot)
                                      else eligiblePlayers pot) \<rparr>)))"

definition removeEligiblePlayer :: "playerId \<Rightarrow> Pot \<Rightarrow> Pot" where
  "removeEligiblePlayer pid pot =
     pot\<lparr> eligiblePlayers := removeAll pid (eligiblePlayers pot),
          playerContributions :=
            (case map_of (playerContributions pot) pid of
               None \<Rightarrow> playerContributions pot
             | Some c \<Rightarrow> mapSet pid (c\<lparr> isEligible := False \<rparr>) (playerContributions pot)) \<rparr>"

definition isPlayerEligible :: "Pot \<Rightarrow> playerId \<Rightarrow> bool" where
  "isPlayerEligible pot pid = (pid \<in> set (eligiblePlayers pot))"

definition getPlayerContribution :: "Pot \<Rightarrow> playerId \<Rightarrow> int" where
  "getPlayerContribution pot pid =
     (case map_of (playerContributions pot) pid of None \<Rightarrow> 0 | Some c \<Rightarrow> cAmount c)"

text \<open>
  One entry of a pot's distribution. \<^verbatim>\<open>percentage\<close> is a floating-point quotient kept for
  display and is left out; \<open>handStrength\<close> is \<^verbatim>\<open>handEvaluations[playerId] || null\<close> (absent
  for a sole winner).
\<close>

record Payout =
  playerId :: playerId
  payAmount :: int
  isSoleWinner :: bool
  handStrength :: "HandResult option"

definition splitEntry :: "(playerId \<rightharpoonup> HandResult) \<Rightarrow> int \<Rightarrow> int \<Rightarrow> playerId \<times> nat \<Rightarrow> Payout" where
  "splitEntry handEvaluations baseAmount remainder pi =
     \<lparr> playerId = fst pi,
       payAmount = baseAmount + (if int (snd pi) < remainder then 1 else 0),
       isSoleWinner = False,
       handStrength = handEvaluations (fst pi) \<rparr>"

definition calculateDistribution :: "playerId list \<Rightarrow> (playerId \<rightharpoonup> HandResult) \<Rightarrow> Pot \<Rightarrow> Payout list" where
  "calculateDistribution winnerPlayers handEvaluations pot =
     (let potAmount = amount pot in
      if length winnerPlayers = 1 then
        [\<lparr> playerId = winnerPlayers ! 0, payAmount = potAmount, isSoleWinner = True,
           handStrength = None \<rparr>]
      else
        (let winnersCount = int (length winnerPlayers);
             baseAmount = potAmount div winnersCount;
             remainder = jsRem potAmount winnersCount
         in map (splitEntry handEvaluations baseAmount remainder)
                (zip winnerPlayers [0 ..< length winnerPlayers])))"

definition markWon :: "Pot \<Rightarrow> Payout \<Rightarrow> Pot" where
  "markWon pot d =
     (case map_of (playerContributions pot) (playerId d) of
        None \<Rightarrow> pot
      | Some c \<Rightarrow>
          pot\<lparr> playerContributions :=
                 mapSet (playerId d) (c\<lparr> hasWon := True, cWonAmount := payAmount d \<rparr>)
                        (playerContributions pot) \<rparr>)"

definition distributeToWinners :: "playerId list \<Rightarrow> (playerId \<rightharpoonup> HandResult) \<Rightarrow> Pot \<Rightarrow> Payout list \<times> Pot" where
  "distributeToWinners winnerPlayers handEvaluations pot =
     (if isDistributed pot then ([], pot)
      else if amount pot \<le> 0 then ([], pot)
      else if length winnerPlayers = 0 then ([], pot)
      else
        (let pot1 = pot\<lparr> winners := winnerPlayers, isDistributed := True, isLocked := True \<rparr>;
             distribution = calculateDistribution winnerPlayers handEvaluations pot1
         in (distribution, foldl markWon pot1 distribution)))"

subsection \<open>class PotManager\<close>

record PotEntry =
  ePotId :: pot_id
  eAmount :: int
  eDistribution :: "Payout list"
  eligibleWinners :: "playerId list"

text \<open>
  The summary object of \<^verbatim>\<open>distributeAllPots\<close>. \<open>timestamp\<close> is the clock reading the caller
  supplies; \<open>dWinners\<close> is the object \<^verbatim>\<open>winners\<close>, player id to total won.
\<close>

record Distribution =
  timestamp :: string
  dPots :: "PotEntry list"
  totalDistributed :: int
  dWinners :: "(playerId \<times> int) list"

record HistoryEntry =
  hDistribution :: Distribution
  potsCount :: nat
  hTotalAmount :: int
  mainPotAmount :: int
  sidePotsAmount :: int

record PotManager =
  mainPot :: Pot
  sidePots :: "Pot list"
  totalAmount :: int
  history :: "HistoryEntry list"
  currentRound :: string
  isShowdown :: bool
  lastDistribution :: "Distribution option"

definition newPotManager :: PotManager where
  "newPotManager =
     \<lparr> mainPot = newPot MainId 0, sidePots = [], totalAmount = 0, history = [],
       currentRound = ''preflop'', isShowdown = False, lastDistribution = None \<rparr>"

text \<open>The third argument of \<^verbatim>\<open>addBet\<close>, \<^verbatim>\<open>playerAllInAmount = Infinity\<close> by default.\<close>

datatype allInAmount = Infinity | Finite int

definition maxContribution :: "Pot \<Rightarrow> int" where
  "maxContribution pot =
     foldl (\<lambda>m c. if cAmount c > m then cAmount c else m) 0 (map snd (playerContributions pot))"

definition getPotSpaceForPlayer :: "playerId \<Rightarrow> Pot \<Rightarrow> allInAmount \<Rightarrow> int" where
  "getPotSpaceForPlayer pid pot playerAllInAmount =
     (case playerAllInAmount of
        Finite a \<Rightarrow>
          (if a \<le> 0 then 0
           else (let currentContribution = getPlayerContribution pot pid;
                     spaceInPot = maxContribution pot - currentContribution;
                     spaceByAllIn = a - currentContribution
                 in min spaceInPot spaceByAllIn))
      | Infinity \<Rightarrow>
          (let currentContribution = getPlayerContribution pot pid
           in maxContribution pot - currentContribution))"

text \<open>
  \<^verbatim>\<open>createNewSidePot()\<close> builds the pot \<^verbatim>\<open>side-N\<close> for \<open>N = sidePots.length + 1\<close> and makes
  eligible everybody with a positive contribution to the pot before it. It does not add the
  pot to \<open>sidePots\<close>; the caller does, or does not.
\<close>

definition createNewSidePot :: "PotManager \<Rightarrow> Pot" where
  "createNewSidePot pm =
     (let sidePotNumber = length (sidePots pm) + 1;
          previousPot = (if sidePotNumber = 1 then mainPot pm else sidePots pm ! (sidePotNumber - 2))
      in (newPot (SideId sidePotNumber) sidePotNumber)
           \<lparr> eligiblePlayers :=
               map fst (filter (\<lambda>kv. cAmount (snd kv) > 0) (playerContributions previousPot)) \<rparr>)"

definition updateTotalAmount :: "PotManager \<Rightarrow> PotManager" where
  "updateTotalAmount pm = pm\<lparr> totalAmount := foldl (\<lambda>total pot. total + amount pot) (amount (mainPot pm)) (sidePots pm) \<rparr>"

text \<open>
  \<^verbatim>\<open>addBet\<close>, second stage: the existing side pots in order, until nothing remains. The
  triple is the side pots, \<open>remainingAmount\<close> and \<open>potsAffected\<close>.
\<close>

fun addBetSidePots :: "playerId \<Rightarrow> allInAmount \<Rightarrow> string \<Rightarrow> Pot list \<Rightarrow> int \<Rightarrow> (pot_id \<times> int) list
    \<Rightarrow> Pot list \<times> int \<times> (pot_id \<times> int) list" where
  "addBetSidePots pid playerAllInAmount rnd [] remainingAmount potsAffected =
     ([], remainingAmount, potsAffected)"
| "addBetSidePots pid playerAllInAmount rnd (sidePot # rest) remainingAmount potsAffected =
     (if remainingAmount \<le> 0 then (sidePot # rest, remainingAmount, potsAffected)
      else
        (let potSpace = getPotSpaceForPlayer pid sidePot playerAllInAmount;
             amountToSide = min remainingAmount potSpace
         in if amountToSide > 0 then
              (case addBetSidePots pid playerAllInAmount rnd rest (remainingAmount - amountToSide)
                      (potsAffected @ [(potId sidePot, amountToSide)]) of
                 (rest', r, a) \<Rightarrow> (snd (addPlayerContribution pid amountToSide rnd sidePot) # rest', r, a))
            else
              (case addBetSidePots pid playerAllInAmount rnd rest remainingAmount potsAffected of
                 (rest', r, a) \<Rightarrow> (sidePot # rest', r, a))))"

text \<open>
  \<^verbatim>\<open>addBet\<close>, third stage: \<^verbatim>\<open>while (remainingAmount > 0)\<close> a new side pot is created and
  offered the remainder; only a pot that took something is pushed. Nothing bounds the number
  of rounds, so the loop is a partial function: \<open>None\<close> is the loop that never ends.
\<close>

partial_function (option) addBetNewPots :: "playerId \<Rightarrow> allInAmount \<Rightarrow> PotManager \<Rightarrow> int
    \<Rightarrow> (pot_id \<times> int) list \<Rightarrow> (PotManager \<times> int \<times> (pot_id \<times> int) list) option" where
  "addBetNewPots pid playerAllInAmount pm remainingAmount potsAffected =
     (if remainingAmount > 0 then
        (let newSidePot = createNewSidePot pm;
             potSpace = getPotSpaceForPlayer pid newSidePot playerAllInAmount;
             amountToNewPot = min remainingAmount potSpace
         in if amountToNewPot > 0 then
              addBetNewPots pid playerAllInAmount
                (pm\<lparr> sidePots := sidePots pm @
                       [snd (addPlayerContribution pid amountToNewPot (currentRound pm) newSidePot)] \<rparr>)
                (remainingAmount - amountToNewPot)
                (potsAffected @ [(potId newSidePot, amountToNewPot)])
            else addBetNewPots pid playerAllInAmount pm remainingAmount potsAffected)
      else Some (pm, remainingAmount, potsAffected))"

declare addBetNewPots.simps [code]

record AddBetResult =
  added :: int
  pots :: "(pot_id \<times> int) list"
  resTotalAmount :: "int option"

definition addBet :: "playerId \<Rightarrow> int \<Rightarrow> allInAmount \<Rightarrow> PotManager \<Rightarrow> (AddBetResult \<times> PotManager) option" where
  "addBet pid amt playerAllInAmount pm =
     (if amt \<le> 0 then Some (\<lparr> added = 0, pots = [], resTotalAmount = None \<rparr>, pm)
      else
        (let mainPotSpace = getPotSpaceForPlayer pid (mainPot pm) playerAllInAmount;
             amountToMain = min amt mainPotSpace;
             pm1 = (if amountToMain > 0
                    then pm\<lparr> mainPot := snd (addPlayerContribution pid amountToMain (currentRound pm) (mainPot pm)) \<rparr>
                    else pm);
             remaining1 = (if amountToMain > 0 then amt - amountToMain else amt);
             affected1 = (if amountToMain > 0 then [(MainId, amountToMain)] else [])
         in case addBetSidePots pid playerAllInAmount (currentRound pm) (sidePots pm1) remaining1 affected1 of
              (sidePots2, remaining2, affected2) \<Rightarrow>
                (case addBetNewPots pid playerAllInAmount (pm1\<lparr> sidePots := sidePots2 \<rparr>) remaining2 affected2 of
                   None \<Rightarrow> None
                 | Some (pm3, remaining3, affected3) \<Rightarrow>
                     (let pm4 = updateTotalAmount pm3
                      in Some (\<lparr> added = amt - remaining3, pots = affected3,
                                 resTotalAmount = Some (totalAmount pm4) \<rparr>, pm4)))))"

definition playerFolds :: "playerId \<Rightarrow> PotManager \<Rightarrow> PotManager" where
  "playerFolds pid pm =
     pm\<lparr> mainPot := removeEligiblePlayer pid (mainPot pm),
         sidePots := map (removeEligiblePlayer pid) (sidePots pm) \<rparr>"

text \<open>
  \<^verbatim>\<open>handleExcessContribution\<close> returns at once for an excess of 0 or less; otherwise it calls
  \<open>createNewSidePot\<close>, logs, and drops the pot ("Implementacao completa exigiria mais
  logica"). Either way the ledger is as before.
\<close>

definition handleExcessContribution :: "Pot \<Rightarrow> playerId \<Rightarrow> int \<Rightarrow> PotManager \<Rightarrow> PotManager" where
  "handleExcessContribution pot pid excessAmount pm =
     (if excessAmount \<le> 0 then pm else (let newSidePot = createNewSidePot pm in pm))"

fun recalculateLoop :: "playerId \<Rightarrow> int \<Rightarrow> Pot list \<Rightarrow> int \<Rightarrow> PotManager \<Rightarrow> PotManager" where
  "recalculateLoop pid allInAmt [] totalContributed pm = pm"
| "recalculateLoop pid allInAmt (sidePot # rest) totalContributed pm =
     (let contribution = getPlayerContribution sidePot pid;
          pm' = (if totalContributed + contribution > allInAmt
                 then handleExcessContribution sidePot pid ((totalContributed + contribution) - allInAmt) pm
                 else pm)
      in recalculateLoop pid allInAmt rest (totalContributed + contribution) pm')"

definition recalculateForAllIn :: "playerId \<Rightarrow> int \<Rightarrow> PotManager \<Rightarrow> PotManager" where
  "recalculateForAllIn pid allInAmt pm =
     updateTotalAmount
       (recalculateLoop pid allInAmt (sidePots pm) (getPlayerContribution (mainPot pm) pid) pm)"

definition playerAllIn :: "playerId \<Rightarrow> int \<Rightarrow> PotManager \<Rightarrow> PotManager" where
  "playerAllIn pid allInAmt pm = recalculateForAllIn pid allInAmt pm"

text \<open>
  \<^verbatim>\<open>distributeAllPots\<close>: the loop over \<^verbatim>\<open>[mainPot, ...sidePots]\<close>. The accumulator is the
  summary object; the pots come back as the loop left them.
\<close>

definition creditWinner :: "Distribution \<Rightarrow> Payout \<Rightarrow> Distribution" where
  "creditWinner dist d =
     (let soFar = (case map_of (dWinners dist) (playerId d) of None \<Rightarrow> 0 | Some w \<Rightarrow> w)
      in dist\<lparr> dWinners := mapSet (playerId d) (soFar + payAmount d) (dWinners dist),
               totalDistributed := totalDistributed dist + payAmount d \<rparr>)"

fun distributeLoop :: "playerId list \<Rightarrow> (playerId \<rightharpoonup> HandResult) \<Rightarrow> Pot list \<Rightarrow> Distribution
    \<Rightarrow> Pot list \<times> Distribution" where
  "distributeLoop winningPlayersByStrength handEvaluations [] dist = ([], dist)"
| "distributeLoop winningPlayersByStrength handEvaluations (pot # rest) dist =
     (if amount pot \<le> 0 then
        (case distributeLoop winningPlayersByStrength handEvaluations rest dist of
           (rest', dist') \<Rightarrow> (pot # rest', dist'))
      else
        (let eligibleWs = filter (isPlayerEligible pot) winningPlayersByStrength
         in if length eligibleWs = 0 then
              (case distributeLoop winningPlayersByStrength handEvaluations rest dist of
                 (rest', dist') \<Rightarrow> (pot # rest', dist'))
            else
              (case distributeToWinners eligibleWs handEvaluations pot of
                 (potDistribution, pot') \<Rightarrow>
                   (let dist1 = foldl creditWinner dist potDistribution;
                        dist2 = dist1\<lparr> dPots := dPots dist1 @
                                  [\<lparr> ePotId = potId pot', eAmount = amount pot',
                                     eDistribution = potDistribution,
                                     eligibleWinners = eligibleWs \<rparr>] \<rparr>
                    in case distributeLoop winningPlayersByStrength handEvaluations rest dist2 of
                         (rest', dist') \<Rightarrow> (pot' # rest', dist')))))"

definition saveToHistory :: "Distribution \<Rightarrow> PotManager \<Rightarrow> PotManager" where
  "saveToHistory dist pm =
     (let h = history pm @
                [\<lparr> hDistribution = dist,
                   potsCount = length (sidePots pm) + 1,
                   hTotalAmount = totalAmount pm,
                   mainPotAmount = amount (mainPot pm),
                   sidePotsAmount = foldl (\<lambda>sum pot. sum + amount pot) 0 (sidePots pm) \<rparr>]
      in pm\<lparr> history := (if length h > 100 then tl h else h) \<rparr>)"

definition distributeAllPots :: "string \<Rightarrow> playerId list \<Rightarrow> (playerId \<rightharpoonup> HandResult) \<Rightarrow> PotManager
    \<Rightarrow> Distribution option \<times> PotManager" where
  "distributeAllPots now winningPlayersByStrength handEvaluations pm =
     (if isShowdown pm then (lastDistribution pm, pm)
      else
        (case distributeLoop winningPlayersByStrength handEvaluations (mainPot pm # sidePots pm)
                \<lparr> timestamp = now, dPots = [], totalDistributed = 0, dWinners = [] \<rparr> of
           (allPots, dist) \<Rightarrow>
             (Some dist,
              saveToHistory dist
                (pm\<lparr> isShowdown := True, mainPot := hd allPots, sidePots := tl allPots,
                     lastDistribution := Some dist \<rparr>))))"

section \<open>Players (jogador.js, class PokerPlayer)\<close>

text \<open>
  The fields of a player that the betting methods read or write. Identity and display
  fields (nickname, avatar, bot personality, timers, connection time) and the hole cards
  play no part in them and are left out, as are the floating-point ratios of the statistics
  (\<^verbatim>\<open>vpip\<close>, \<^verbatim>\<open>pfr\<close>, \<^verbatim>\<open>aggressionFactor\<close>) and the time stamp of a history entry.
\<close>

record PlayerStats =
  handsWon :: nat
  totalProfit :: int
  biggestPotWon :: int
  biggestWin :: int
  folds :: nat
  checks :: nat
  calls :: nat
  bets :: nat
  raises :: nat
  allins :: nat

record ActionRecord =
  hAction :: string
  hAmount :: int
  hRound :: "string option"
  hPosition :: nat
  chipsBefore :: int
  chipsAfter :: int

record PokerPlayer =
  userId :: playerId
  chips :: int
  bet :: int
  totalBetThisHand :: int
  lastBetAmount :: int
  position :: nat
  isActive :: bool
  isInHand :: bool
  isFolded :: bool
  isAllIn :: bool
  hasActedThisRound :: bool
  sittingOut :: bool
  isEliminated :: bool
  isCurrentTurn :: bool
  lastAction :: "string option"
  lastActionAmount :: int
  actionHistory :: "ActionRecord list"
  connected :: bool
  isWinner :: bool
  wonAmount :: int
  potWon :: int
  stats :: PlayerStats

text \<open>The constructor: \<^verbatim>\<open>new PokerPlayer(userId, nickname, chips, position)\<close>.\<close>

definition newPokerPlayer :: "playerId \<Rightarrow> int \<Rightarrow> nat \<Rightarrow> PokerPlayer" where
  "newPokerPlayer uid startChips pos =
     \<lparr> userId = uid, chips = max 0 startChips, bet = 0, totalBetThisHand = 0, lastBetAmount = 0,
       position = pos, isActive = True, isInHand = True, isFolded = False, isAllIn = False,
       hasActedThisRound = False, sittingOut = False, isEliminated = False,
       isCurrentTurn = False, lastAction = None, lastActionAmount = 0, actionHistory = [],
       connected = True, isWinner = False, wonAmount = 0, potWon = 0,
       stats = \<lparr> handsWon = 0, totalProfit = 0, biggestPotWon = 0, biggestWin = 0, folds = 0,
                 checks = 0, calls = 0, bets = 0, raises = 0, allins = 0 \<rparr> \<rparr>"

text \<open>\<^verbatim>\<open>addToBet(amount)\<close> returns the chips actually moved from the stack to the bet.\<close>

definition addToBet :: "int \<Rightarrow> PokerPlayer \<Rightarrow> int \<times> PokerPlayer" where
  "addToBet amt p =
     (if amt \<le> 0 then (0, p)
      else
        (let actualAmount = min amt (chips p) in
         if actualAmount \<le> 0 then (0, p)
         else
           (let p1 = p\<lparr> chips := chips p - actualAmount,
                        bet := bet p + actualAmount,
                        totalBetThisHand := totalBetThisHand p + actualAmount,
                        lastBetAmount := actualAmount \<rparr>
            in (actualAmount, if chips p1 = 0 then p1\<lparr> isAllIn := True \<rparr> else p1))))"

definition winChips :: "int \<Rightarrow> int \<Rightarrow> PokerPlayer \<Rightarrow> PokerPlayer" where
  "winChips amt potSize p =
     p\<lparr> chips := chips p + amt, wonAmount := amt, potWon := potSize, isWinner := True,
        stats := (stats p)\<lparr> totalProfit := totalProfit (stats p) + amt,
                             handsWon := handsWon (stats p) + 1,
                             biggestWin := (if amt > biggestWin (stats p) then amt
                                            else biggestWin (stats p)),
                             biggestPotWon := (if potSize > biggestPotWon (stats p) then potSize
                                               else biggestPotWon (stats p)) \<rparr> \<rparr>"

text \<open>The object a caller passes to \<^verbatim>\<open>takeAction\<close> and \<^verbatim>\<open>canAct\<close>; an absent
  \<^verbatim>\<open>currentPlayerTurn\<close> or \<^verbatim>\<open>currentRound\<close> is \<open>None\<close>.\<close>

record GameStateArg =
  gsCurrentPlayerTurn :: "playerId option"
  gsCurrentMaxBet :: int
  gsCurrentRound :: "string option"

definition canAct :: "GameStateArg \<Rightarrow> PokerPlayer \<Rightarrow> bool" where
  "canAct gameState p =
     (if \<not> isActive p then False
      else if isEliminated p then False
      else if \<not> isInHand p then False
      else if isFolded p then False
      else if isAllIn p then False
      else if sittingOut p then False
      else if \<not> connected p then False
      else if chips p \<le> 0 then False
      else if gsCurrentPlayerTurn gameState = Some (userId p) then True
      else False)"

definition canCheck :: "int \<Rightarrow> PokerPlayer \<Rightarrow> bool" where
  "canCheck currentMaxBet p = (bet p \<ge> currentMaxBet)"

definition getCallAmount :: "int \<Rightarrow> PokerPlayer \<Rightarrow> int" where
  "getCallAmount currentMaxBet p = max 0 (currentMaxBet - bet p)"

definition getMinRaise :: "int \<Rightarrow> PokerPlayer \<Rightarrow> int" where
  "getMinRaise currentMaxBet p =
     (if currentMaxBet = 0 then 0
      else (let difference = currentMaxBet - bet p
            in max (currentMaxBet + difference) (currentMaxBet * 2)))"

text \<open>
  The action methods. Each returns the chips added, or the error it throws, and the player
  as the call leaves it (a \<^verbatim>\<open>throw\<close> does not undo the assignments made before it).
\<close>

definition fold :: "PokerPlayer \<Rightarrow> int \<times> PokerPlayer" where
  "fold p = (0, p\<lparr> isFolded := True, isInHand := False, bet := 0,
                    stats := (stats p)\<lparr> folds := folds (stats p) + 1 \<rparr> \<rparr>)"

definition check :: "int \<Rightarrow> PokerPlayer \<Rightarrow> (error + int) \<times> PokerPlayer" where
  "check currentMaxBet p =
     (if \<not> canCheck currentMaxBet p then (Inl CannotCheck, p)
      else (Inr 0, p\<lparr> stats := (stats p)\<lparr> checks := checks (stats p) + 1 \<rparr> \<rparr>))"

definition call :: "int \<Rightarrow> PokerPlayer \<Rightarrow> (error + int) \<times> PokerPlayer" where
  "call currentMaxBet p =
     (let callAmount = getCallAmount currentMaxBet p in
      if callAmount \<le> 0 then check currentMaxBet p
      else (case addToBet callAmount p of
              (chipsAdded, p') \<Rightarrow>
                (Inr chipsAdded, p'\<lparr> stats := (stats p')\<lparr> calls := calls (stats p') + 1 \<rparr> \<rparr>)))"

definition raise :: "int \<Rightarrow> int \<Rightarrow> PokerPlayer \<Rightarrow> (error + int) \<times> PokerPlayer" where
  "raise amt currentMaxBet p =
     (let minRaise = getMinRaise currentMaxBet p in
      if amt < minRaise \<and> chips p \<ge> minRaise then (Inl (RaiseBelowMin minRaise amt), p)
      else (case addToBet amt p of
              (chipsAdded, p') \<Rightarrow>
                (Inr chipsAdded, p'\<lparr> stats := (stats p')\<lparr> raises := raises (stats p') + 1 \<rparr> \<rparr>)))"

definition allIn :: "PokerPlayer \<Rightarrow> int \<times> PokerPlayer" where
  "allIn p =
     (case addToBet (chips p) p of
        (chipsAdded, p') \<Rightarrow>
          (chipsAdded, p'\<lparr> isAllIn := True, stats := (stats p')\<lparr> allins := allins (stats p') + 1 \<rparr> \<rparr>))"

text \<open>\<^verbatim>\<open>action.toLowerCase()\<close>, for strings of ASCII characters.\<close>

definition toLowerChar :: "char \<Rightarrow> char" where
  "toLowerChar c =
     (case map_of (zip ''ABCDEFGHIJKLMNOPQRSTUVWXYZ'' ''abcdefghijklmnopqrstuvwxyz'') c of
        None \<Rightarrow> c | Some l \<Rightarrow> l)"

definition toLowerCase :: "string \<Rightarrow> string" where
  "toLowerCase s = map toLowerChar s"

record ActionResult =
  arAction :: string
  arAmount :: int
  arSuccess :: bool

text \<open>
  \<^verbatim>\<open>takeAction(action, amount, gameState)\<close>. After the \<open>canAct\<close> guard the method assigns
  \<open>lastAction\<close>, \<open>lastActionAmount\<close>, \<open>hasActedThisRound\<close> and \<open>isCurrentTurn\<close>, and only
  then enters the \<^verbatim>\<open>switch\<close>, whose branches validate and may throw.

  The branch \<^verbatim>\<open>case 'bet': chipsAdded = this.bet(amount, ...)\<close> calls the property \<open>bet\<close> of the
  instance. The constructor assigns \<^verbatim>\<open>this.bet = 0\<close>, a number that hides the method of
  the same name on the prototype, and every later assignment keeps it a number: the call
  raises \<open>TypeError\<close>. The body of the method \<^verbatim>\<open>bet(amount, currentMaxBet)\<close> is therefore
  never run and has no definition here.

  The result of \<^verbatim>\<open>fold()\<close> is not assigned, so \<open>chipsAdded\<close> stays 0.
\<close>

definition finishAction :: "string \<Rightarrow> GameStateArg \<Rightarrow> int \<Rightarrow> PokerPlayer \<Rightarrow> (error + ActionResult) \<times> PokerPlayer" where
  "finishAction actionLower gameState chipsAdded p =
     (Inr \<lparr> arAction = actionLower, arAmount = chipsAdded, arSuccess = True \<rparr>,
      p\<lparr> actionHistory := actionHistory p @
            [\<lparr> hAction = actionLower, hAmount = chipsAdded, hRound = gsCurrentRound gameState,
               hPosition = position p, chipsBefore = chips p + chipsAdded, chipsAfter = chips p \<rparr>] \<rparr>)"

definition takeAction :: "string \<Rightarrow> int \<Rightarrow> GameStateArg \<Rightarrow> PokerPlayer \<Rightarrow> (error + ActionResult) \<times> PokerPlayer" where
  "takeAction action amt gameState p =
     (if \<not> canAct gameState p then (Inl CannotAct, p)
      else
        (let actionLower = toLowerCase action;
             p1 = p\<lparr> lastAction := Some actionLower, lastActionAmount := amt,
                      hasActedThisRound := True, isCurrentTurn := False \<rparr>
         in if actionLower = ''fold'' then
              finishAction actionLower gameState 0 (snd (fold p1))
            else if actionLower = ''check'' then
              (case check (gsCurrentMaxBet gameState) p1 of
                 (Inl e, p2) \<Rightarrow> (Inl e, p2)
               | (Inr chipsAdded, p2) \<Rightarrow> finishAction actionLower gameState chipsAdded p2)
            else if actionLower = ''call'' then
              (case call (gsCurrentMaxBet gameState) p1 of
                 (Inl e, p2) \<Rightarrow> (Inl e, p2)
               | (Inr chipsAdded, p2) \<Rightarrow> finishAction actionLower gameState chipsAdded p2)
            else if actionLower = ''bet'' then (Inl TypeError, p1)
            else if actionLower = ''raise'' then
              (case raise amt (gsCurrentMaxBet gameState) p1 of
                 (Inl e, p2) \<Rightarrow> (Inl e, p2)
               | (Inr chipsAdded, p2) \<Rightarrow> finishAction actionLower gameState chipsAdded p2)
            else if actionLower = ''allin'' then
              (case allIn p1 of (chipsAdded, p2) \<Rightarrow> finishAction actionLower gameState chipsAdded p2)
            else (Inl (InvalidAction action), p1)))"

section \<open>Game manager (poker-manager.js, class PokerGameManager)\<close>

datatype game_state =
    LOBBY | STARTING | PREFLOP | FLOP | TURN | RIVER | SHOWDOWN | DISTRIBUTING
  | BETWEEN_HANDS | PAUSED | FINISHED

text \<open>
  The part of the manager that the methods below read or write: the flags and numbers of
  the betting round, the players of the player manager (an array and a map from user id to
  the same objects: a list here, looked up by user id), the pot manager, and the logs.
  Timers, event listeners, statistics and the deck are left out.
\<close>

record ActionLog =
  logPlayerId :: playerId
  logAction :: string
  logAmount :: int

record ErrorEntry =
  errContext :: string
  errError :: error

record PokerGameManager =
  initialized :: bool
  gmState :: game_state
  gmCurrentRound :: string
  startingStack :: int
  bigBlind :: int
  currentPlayerTurn :: "playerId option"
  currentMaxBet :: int
  lastRaiseAmount :: int
  gmLastAction :: "ActionLog option"
  gmActionHistory :: "ActionLog list"
  players :: "PokerPlayer list"
  potManager :: PotManager
  errorLog :: "ErrorEntry list"

definition getPlayerById :: "playerId \<Rightarrow> PokerGameManager \<Rightarrow> PokerPlayer option" where
  "getPlayerById pid gm = List.find (\<lambda>p. userId p = pid) (players gm)"

text \<open>
  The player objects are mutated in place; in the model the player a method returns is put
  back where \<open>getPlayerById\<close> found it.
\<close>

fun putPlayer :: "PokerPlayer \<Rightarrow> PokerPlayer list \<Rightarrow> PokerPlayer list" where
  "putPlayer p [] = []"
| "putPlayer p (q # qs) = (if userId q = userId p then p # qs else q # putPlayer p qs)"

definition calculateMinRaise :: "PokerGameManager \<Rightarrow> int" where
  "calculateMinRaise gm =
     (if currentMaxBet gm = 0 then bigBlind gm
      else if lastRaiseAmount gm > 0 then currentMaxBet gm + lastRaiseAmount gm
      else currentMaxBet gm * 2)"

text \<open>\<^verbatim>\<open>validateAction(player, action, amount)\<close> throws or returns; it assigns nothing.\<close>

definition validateAction :: "PokerPlayer \<Rightarrow> string \<Rightarrow> int \<Rightarrow> PokerGameManager \<Rightarrow> error + unit" where
  "validateAction player action amt gm =
     (let playerChips = chips player; playerBet = bet player; a = toLowerCase action in
      if a = ''fold'' then Inr ()
      else if a = ''check'' then
        (if \<not> canCheck (currentMaxBet gm) player then Inl CannotCheck else Inr ())
      else if a = ''call'' then
        (let callAmount = getCallAmount (currentMaxBet gm) player
         in if callAmount > playerChips then Inl InsufficientChipsForCall else Inr ())
      else if a = ''bet'' then
        (if currentMaxBet gm > 0 then Inl BetAfterBets
         else if amt \<le> 0 then Inl InvalidBetAmount
         else if amt > playerChips then Inl InsufficientChips
         else if amt < bigBlind gm then Inl (BetBelowMin (bigBlind gm))
         else Inr ())
      else if a = ''raise'' then
        (if currentMaxBet gm = 0 then Inl RaiseWithoutBets
         else
           (let minRaise = calculateMinRaise gm in
            if amt < minRaise \<and> playerChips \<ge> minRaise then Inl (RaiseMinimum minRaise)
            else
              (let totalToCall = playerBet + amt
               in if totalToCall > playerChips + playerBet then Inl InsufficientChips else Inr ())))
      else if a = ''allin'' then
        (if playerChips \<le> 0 then Inl NoChipsForAllIn else Inr ())
      else Inl (InvalidAction action))"

text \<open>\<^verbatim>\<open>logError(context, error, extraData)\<close> appends to the error log, which keeps 100 entries.\<close>

definition logError :: "string \<Rightarrow> error \<Rightarrow> PokerGameManager \<Rightarrow> PokerGameManager" where
  "logError ctxt e gm =
     (let l = errorLog gm @ [\<lparr> errContext = ctxt, errError = e \<rparr>]
      in gm\<lparr> errorLog := (if length l > 100 then tl l else l) \<rparr>)"

text \<open>
  \<^verbatim>\<open>processPlayerAction(playerId, action, amount)\<close>. Four guards throw before the
  \<^verbatim>\<open>try\<close>; inside it come \<open>validateAction\<close>, then \<^verbatim>\<open>player.takeAction\<close> with the object
  \<^verbatim>\<open>{ currentMaxBet, currentRound }\<close> (no \<^verbatim>\<open>currentPlayerTurn\<close>), then for a positive amount
  \<^verbatim>\<open>potManager.addBet(playerId, actionResult.amount, player.chips)\<close> and the update of
  \<open>currentMaxBet\<close> (tested on \<open>action\<close> as passed, not lower-cased), the action log, and
  at last the round machinery: \<^verbatim>\<open>stopActionTimer\<close>, the event, \<open>isRoundComplete\<close> with
  \<open>advanceTurn\<close> or \<open>checkRoundCompletion\<close>, and the result object. The round machinery
  (turn order, dealing, showdown) is the parameter \<open>roundMachinery\<close>. Whatever is thrown
  inside the \<^verbatim>\<open>try\<close> is logged and thrown again. \<open>None\<close> is a call that does not return.
\<close>

definition rethrow :: "((error + ActionResult) \<times> PokerGameManager) option
    \<Rightarrow> ((error + ActionResult) \<times> PokerGameManager) option" where
  "rethrow r =
     (case r of
        None \<Rightarrow> None
      | Some (Inl e, gm) \<Rightarrow> Some (Inl e, logError ''action_failed'' e gm)
      | Some (Inr x, gm) \<Rightarrow> Some (Inr x, gm))"

definition processPlayerAction ::
    "(ActionResult \<Rightarrow> PokerGameManager \<Rightarrow> ((error + ActionResult) \<times> PokerGameManager) option)
     \<Rightarrow> playerId \<Rightarrow> string \<Rightarrow> int \<Rightarrow> PokerGameManager
     \<Rightarrow> ((error + ActionResult) \<times> PokerGameManager) option" where
  "processPlayerAction roundMachinery pid action amt gm =
     (if \<not> initialized gm then Some (Inl NotInitialized, gm)
      else if gmState gm \<noteq> PREFLOP \<and> gmState gm \<noteq> FLOP \<and> gmState gm \<noteq> TURN \<and> gmState gm \<noteq> RIVER
           then Some (Inl NotTimeToAct, gm)
      else if currentPlayerTurn gm \<noteq> Some pid then Some (Inl NotYourTurn, gm)
      else
        (case getPlayerById pid gm of
           None \<Rightarrow> Some (Inl PlayerNotFound, gm)
         | Some player \<Rightarrow>
             rethrow
               (case validateAction player action amt gm of
                  Inl e \<Rightarrow> Some (Inl e, gm)
                | Inr _ \<Rightarrow>
                    (case takeAction action amt
                            \<lparr> gsCurrentPlayerTurn = None, gsCurrentMaxBet = currentMaxBet gm,
                              gsCurrentRound = Some (gmCurrentRound gm) \<rparr> player of
                       (Inl e, player') \<Rightarrow> Some (Inl e, gm\<lparr> players := putPlayer player' (players gm) \<rparr>)
                     | (Inr actionResult, player') \<Rightarrow>
                         (let gm1 = gm\<lparr> players := putPlayer player' (players gm) \<rparr> in
                          case (if arAmount actionResult > 0
                                then map_option snd
                                       (addBet pid (arAmount actionResult) (Finite (chips player'))
                                          (potManager gm1))
                                else Some (potManager gm1)) of
                            None \<Rightarrow> None
                          | Some pm' \<Rightarrow>
                              (let gm2 = gm1\<lparr> potManager := pm' \<rparr>;
                                   gm3 = (if arAmount actionResult > 0
                                             \<and> action \<in> {''bet'', ''raise'', ''allin''}
                                          then gm2\<lparr> currentMaxBet := max (currentMaxBet gm2) (bet player'),
                                                   lastRaiseAmount := (if action = ''raise'' then amt else 0) \<rparr>
                                          else gm2);
                                   entry = \<lparr> logPlayerId = pid, logAction = action,
                                             logAmount = arAmount actionResult \<rparr>;
                                   gm4 = gm3\<lparr> gmLastAction := Some entry,
                                            gmActionHistory := gmActionHistory gm3 @ [entry] \<rparr>
                               in roundMachinery actionResult gm4))))))"

text \<open>
  \<^verbatim>\<open>distributePot(winners, handEvaluations)\<close>: no winners, no effect. Otherwise the state
  becomes \<open>DISTRIBUTING\<close>, the pot manager distributes, and the method goes on with
  \<^verbatim>\<open>distribution.forEach(({ playerId, amount }) => ... player.winChips(amount) ...)\<close>. What
  \<open>distributeAllPots\<close> returned is its summary object (or \<^verbatim>\<open>null\<close>, the \<open>lastDistribution\<close> of
  a ledger whose showdown flag was set before any distribution); neither has a \<open>forEach\<close>,
  the call raises \<open>TypeError\<close>, and nothing after it runs: no \<open>winChips\<close>, no event, no
  \<open>finishHand\<close>.
\<close>

definition distributePot :: "string \<Rightarrow> playerId list \<Rightarrow> (playerId \<rightharpoonup> HandResult) \<Rightarrow> PokerGameManager
    \<Rightarrow> (error + unit) \<times> PokerGameManager" where
  "distributePot now winnerIds handEvaluations gm =
     (if length winnerIds = 0 then (Inr (), gm)
      else
        (let gm1 = gm\<lparr> gmState := DISTRIBUTING \<rparr> in
         case distributeAllPots now winnerIds handEvaluations (potManager gm1) of
           (distribution, pm') \<Rightarrow> (Inl TypeError, gm1\<lparr> potManager := pm' \<rparr>)))"

text \<open>\<^verbatim>\<open>PlayerManager.getTotalChips()\<close>: the sum of the stacks.\<close>

definition getTotalChips :: "PokerPlayer list \<Rightarrow> int" where
  "getTotalChips ps = foldl (\<lambda>sum p. sum + chips p) 0 ps"

text \<open>
  \<^verbatim>\<open>validateGameIntegrity()\<close> collects issues: the stacks must add up to the number of
  players times the starting stack, and no user id may occur twice. (Its third check, that
  the state is one of \<open>GAME_STATES\<close>, holds of every \<open>game_state\<close>.) The game is valid when
  there is no issue.
\<close>

datatype integrity_issue =
    ChipInconsistency int int    \<comment> \<open>"Inconsistencia de fichas: ... vs ..."\<close>
  | DuplicatePlayer playerId     \<comment> \<open>"Jogador duplicado: ..."\<close>

fun duplicateIssues :: "playerId list \<Rightarrow> PokerPlayer list \<Rightarrow> integrity_issue list" where
  "duplicateIssues playerIds [] = []"
| "duplicateIssues playerIds (p # ps) =
     (if userId p \<in> set playerIds then [DuplicatePlayer (userId p)] else [])
     @ duplicateIssues (setAdd (userId p) playerIds) ps"

definition validateGameIntegrity :: "PokerGameManager \<Rightarrow> integrity_issue list" where
  "validateGameIntegrity gm =
     (let totalChips = foldl (\<lambda>sum p. sum + chips p) 0 (players gm);
          expectedChips = int (length (players gm)) * startingStack gm
      in (if totalChips \<noteq> expectedChips then [ChipInconsistency totalChips expectedChips] else [])
         @ duplicateIssues [] (players gm))"

section \<open>Ledger operations in sequence; the eligibility invariant\<close>

text \<open>
  The three operations a game performs on the ledger between two distributions. A sequence
  of them has a result only if every \<open>addBet\<close> in it returns.
\<close>

datatype ledger_op =
    PostContribution playerId int allInAmount   \<comment> \<open>\<^verbatim>\<open>addBet(playerId, amount, playerAllInAmount)\<close>\<close>
  | MarkFolded playerId                         \<comment> \<open>\<^verbatim>\<open>playerFolds(playerId)\<close>\<close>
  | ResolveAllIn playerId int                   \<comment> \<open>\<^verbatim>\<open>playerAllIn(playerId, allInAmount)\<close>\<close>

fun applyOp :: "ledger_op \<Rightarrow> PotManager \<Rightarrow> PotManager option" where
  "applyOp (PostContribution pid amt a) pm = map_option snd (addBet pid amt a pm)"
| "applyOp (MarkFolded pid) pm = Some (playerFolds pid pm)"
| "applyOp (ResolveAllIn pid a) pm = Some (playerAllIn pid a pm)"

fun runOps :: "ledger_op list \<Rightarrow> PotManager \<Rightarrow> PotManager option" where
  "runOps [] pm = Some pm"
| "runOps (x # xs) pm = (case applyOp x pm of None \<Rightarrow> None | Some pm' \<Rightarrow> runOps xs pm')"

text \<open>
  Monotonic eligibility: whoever is eligible for the side pot at index \<open>i\<close> is eligible for
  the main pot and for every side pot at a lower index.
\<close>

definition monotonicEligibility :: "PotManager \<Rightarrow> bool" where
  "monotonicEligibility pm =
     (\<forall>i \<in> set [0 ..< length (sidePots pm)].
        \<forall>p \<in> set (eligiblePlayers (sidePots pm ! i)).
          p \<in> set (eligiblePlayers (mainPot pm)) \<and>
          (\<forall>j \<in> set [0 ..< i]. p \<in> set (eligiblePlayers (sidePots pm ! j))))"

section \<open>Ledgers and tables used as examples\<close>

text \<open>
  The side-pot scenario of the specification, as the pots' own \<open>addPlayerContribution\<close>
  builds it: A, B and C have 100 each in the main pot, B and C 200 each in \<^verbatim>\<open>side-1\<close>.
\<close>

definition scenarioMainPot :: Pot where
  "scenarioMainPot =
     snd (addPlayerContribution ''C'' 100 ''preflop''
       (snd (addPlayerContribution ''B'' 100 ''preflop''
         (snd (addPlayerContribution ''A'' 100 ''preflop'' (newPot MainId 0))))))"

definition scenarioSidePot :: Pot where
  "scenarioSidePot =
     snd (addPlayerContribution ''C'' 200 ''preflop''
       (snd (addPlayerContribution ''B'' 200 ''preflop'' (newPot (SideId 1) 1))))"

definition sidePotScenario :: PotManager where
  "sidePotScenario =
     updateTotalAmount (newPotManager\<lparr> mainPot := scenarioMainPot, sidePots := [scenarioSidePot] \<rparr>)"

text \<open>
  A heads-up table in the middle of a hand: both players started with 1500 chips and have
  100 each in the main pot.
\<close>

definition headsUpPot :: Pot where
  "headsUpPot =
     snd (addPlayerContribution ''B'' 100 ''preflop''
       (snd (addPlayerContribution ''A'' 100 ''preflop'' (newPot MainId 0))))"

definition headsUpTable :: PokerGameManager where
  "headsUpTable =
     \<lparr> initialized = True, gmState = SHOWDOWN, gmCurrentRound = ''river'',
       startingStack = 1500, bigBlind = 20, currentPlayerTurn = None, currentMaxBet = 0,
       lastRaiseAmount = 0, gmLastAction = None, gmActionHistory = [],
       players = [snd (addToBet 100 (newPokerPlayer ''A'' 1500 0)),
                  snd (addToBet 100 (newPokerPlayer ''B'' 1500 1))],
       potManager = updateTotalAmount (newPotManager\<lparr> mainPot := headsUpPot \<rparr>),
       errorLog = [] \<rparr>"

text \<open>A player whose turn it is, facing a bet of 50.\<close>

definition playerOnTurn :: PokerPlayer where
  "playerOnTurn = (newPokerPlayer ''A'' 1000 0)\<lparr> isCurrentTurn := True \<rparr>"

definition facingBet :: GameStateArg where
  "facingBet = \<lparr> gsCurrentPlayerTurn = Some ''A'', gsCurrentMaxBet = 50, gsCurrentRound = Some ''preflop'' \<rparr>"

text \<open>The wheel fixture of the specification and a six-high straight to compare it with.\<close>

definition card :: "rank \<Rightarrow> suit \<Rightarrow> PokerCard" where
  "card r s = \<lparr> suit = s, rank = r \<rparr>"

definition wheelHole :: "PokerCard list" where
  "wheelHole = [card RA SPADES, card R2 SPADES]"

definition wheelBoard :: "PokerCard list" where
  "wheelBoard = [card R3 SPADES, card R4 SPADES, card R5 HEARTS, card R9 CLUBS, card RK DIAMONDS]"

definition sixHighHole :: "PokerCard list" where
  "sixHighHole = [card R6 CLUBS, card R2 DIAMONDS]"

definition sixHighBoard :: "PokerCard list" where
  "sixHighBoard = [card R3 HEARTS, card R4 CLUBS, card R5 DIAMONDS, card R9 HEARTS, card RK CLUBS]"

text \<open>
  A table deck in the middle of a hand: one card left, two dealt and one burned (the burned
  card went through \<^verbatim>\<open>deal(1)\<close>, so it is among the used cards as well).
\<close>

definition tcard :: "rank \<Rightarrow> suit \<Rightarrow> bool \<Rightarrow> TableCard" where
  "tcard r s f = \<lparr> tSuit = s, tRank = r, faceUp = f \<rparr>"

definition midHandDeck :: TableDeck where
  "midHandDeck =
     \<lparr> tCards = [tcard R7 CLUBS False],
       tBurnedCards = [tcard R2 HEARTS False],
       tUsedCards = [tcard RA SPADES False, tcard RK SPADES False, tcard R2 HEARTS False] \<rparr>"

text \<open>A nine-high flush and an ace-high straight, the weakest and the strongest of their categories among the fixtures.\<close>

definition flushHole :: "PokerCard list" where
  "flushHole = [card R2 HEARTS, card R3 HEARTS]"

definition flushBoard :: "PokerCard list" where
  "flushBoard = [card R5 HEARTS, card R7 HEARTS, card R9 HEARTS, card RK SPADES, card RA CLUBS]"

definition broadwayHole :: "PokerCard list" where
  "broadwayHole = [card RA SPADES, card RK DIAMONDS]"

definition broadwayBoard :: "PokerCard list" where
  "broadwayBoard = [card RQ CLUBS, card RJ HEARTS, card R10 SPADES, card R3 DIAMONDS, card R2 CLUBS]"

text \<open>An engine deck in the middle of a hand: one card left.\<close>

definition midHandEngineDeck :: PokerDeck where
  "midHandEngineDeck =
     \<lparr> deckCards = [card R7 CLUBS], burnedCards = [card R2 HEARTS],
       usedCards = [card RA SPADES, card RK SPADES, card R2 HEARTS] \<rparr>"

section \<open>Properties stated about the model\<close>

text \<open>
  The value of a hand lies in the band of its category: at least \<open>handRank * 1000000\<close>, and
  above that by no more than 579194, which is \<open>14 * (14^4 + 14^3 + 14^2 + 14 + 1)\<close>, the most
  that five cards can add.
\<close>

definition inCategoryBand :: "HandResult \<Rightarrow> bool" where
  "inCategoryBand h =
     (handRank h * 1000000 \<le> handValue h \<and> handValue h \<le> handRank h * 1000000 + 579194)"

text \<open>The identity of a table card, without its \<open>faceUp\<close> flag.\<close>

definition face :: "TableCard \<Rightarrow> suit \<times> rank" where
  "face c = (tSuit c, tRank c)"

section \<open>Split of one pot among tied winners\<close>

lemma extras_sum:
  "sum_list (map (\<lambda>i. if int i < r then (1::int) else 0) [0 ..< n]) = max 0 (min r (int n))"
  by (induction n) auto

lemma split_sum:
  assumes "0 \<le> r" "r \<le> int n"
  shows "sum_list (map (\<lambda>i. b + (if int i < r then (1::int) else 0)) [0 ..< n]) = int n * b + r"
proof -
  have "sum_list (map (\<lambda>i. b + (if int i < r then (1::int) else 0)) [0 ..< n])
        = sum_list (map (\<lambda>i. b) [0 ..< n]) + sum_list (map (\<lambda>i. if int i < r then (1::int) else 0) [0 ..< n])"
    by (simp add: sum_list_addf)
  also have "\<dots> = int n * b + r" using assms by (simp add: extras_sum sum_list_triv)
  finally show ?thesis .
qed

lemma payAmount_splitEntry: "payAmount (splitEntry hev b r pi) = b + (if int (snd pi) < r then 1 else 0)"
  by (simp add: splitEntry_def)

lemma playerId_splitEntry: "playerId (splitEntry hev b r pi) = fst pi"
  by (simp add: splitEntry_def)

lemma map_snd_zip_fun:
  "length xs = length ys \<Longrightarrow> map (\<lambda>p. f (snd p)) (zip xs ys) = map f ys"
  by (induction xs ys rule: list_induct2) auto

lemma map_fst_zip_fun:
  "length xs = length ys \<Longrightarrow> map (\<lambda>p. f (fst p)) (zip xs ys) = map f xs"
  by (induction xs ys rule: list_induct2) auto

lemma payAmount_split:
  "map payAmount (map (splitEntry hev b r) (zip ws [0 ..< length ws]))
   = map (\<lambda>i. b + (if int i < r then 1 else 0)) [0 ..< length ws]"
proof -
  have "map payAmount (map (splitEntry hev b r) (zip ws [0 ..< length ws]))
        = map (\<lambda>p. b + (if int (snd p) < r then 1 else 0)) (zip ws [0 ..< length ws])"
    by (simp add: payAmount_splitEntry comp_def)
  also have "\<dots> = map (\<lambda>i. b + (if int i < r then 1 else 0)) [0 ..< length ws]"
    by (rule map_snd_zip_fun) simp
  finally show ?thesis .
qed

lemma playerId_split:
  "map playerId (map (splitEntry hev b r) (zip ws [0 ..< length ws])) = ws"
proof -
  have "map playerId (map (splitEntry hev b r) (zip ws [0 ..< length ws]))
        = map (\<lambda>p. id (fst p)) (zip ws [0 ..< length ws])"
    by (simp add: playerId_splitEntry comp_def)
  also have "\<dots> = map id ws"
    by (rule map_fst_zip_fun) simp
  finally show ?thesis by simp
qed

lemma jsRem_pos: "0 < a \<Longrightarrow> 0 < b \<Longrightarrow> jsRem a b = a mod b"
  by (simp add: jsRem_def)

text \<open>
  Claim C6. For a pot holding \<open>M > 0\<close> chips and a non-empty list of \<open>N\<close> winners,
  \<open>calculateDistribution\<close> pays the winners in the order of the list, the winner at index \<open>i\<close>
  receiving \<open>M div N\<close> chips plus one more when \<open>i < M mod N\<close> (the first \<open>M mod N\<close> winners
  of the list); the payouts add up to exactly \<open>M\<close>; and 100 chips among three winners are
  paid as 34, 33, 33.
\<close>

theorem split_pot_exact:
  assumes "amount pot > 0" and "winnerPlayers \<noteq> []"
  shows "map playerId (calculateDistribution winnerPlayers hev pot) = winnerPlayers
       \<and> map payAmount (calculateDistribution winnerPlayers hev pot)
           = map (\<lambda>i. amount pot div int (length winnerPlayers)
                       + (if int i < amount pot mod int (length winnerPlayers) then 1 else 0))
                 [0 ..< length winnerPlayers]
       \<and> sum_list (map payAmount (calculateDistribution winnerPlayers hev pot)) = amount pot
       \<and> map payAmount (calculateDistribution [a, b, c] hev (pot\<lparr> amount := 100 \<rparr>)) = [34, 33, 33]"
proof -
  let ?N = "length winnerPlayers"
  let ?M = "amount pot"
  have N: "0 < int ?N" using assms(2) by simp
  have ids: "map playerId (calculateDistribution winnerPlayers hev pot) = winnerPlayers"
  proof (cases "?N = 1")
    case True
    then obtain w where "winnerPlayers = [w]" by (cases winnerPlayers) auto
    then show ?thesis by (simp add: calculateDistribution_def)
  next
    case False
    then show ?thesis
      using playerId_split [of hev "amount pot div int (length winnerPlayers)"
                               "jsRem (amount pot) (int (length winnerPlayers))" winnerPlayers]
      by (simp add: calculateDistribution_def Let_def)
  qed
  have pays: "map payAmount (calculateDistribution winnerPlayers hev pot)
           = map (\<lambda>i. ?M div int ?N + (if int i < ?M mod int ?N then 1 else 0)) [0 ..< ?N]"
  proof (cases "?N = 1")
    case True
    then show ?thesis by (simp add: calculateDistribution_def)
  next
    case False
    then show ?thesis
      using assms(1) N
            payAmount_split [of hev "amount pot div int (length winnerPlayers)"
                               "amount pot mod int (length winnerPlayers)" winnerPlayers]
      by (simp add: calculateDistribution_def Let_def jsRem_pos)
  qed
  have "sum_list (map payAmount (calculateDistribution winnerPlayers hev pot))
        = int ?N * (?M div int ?N) + ?M mod int ?N"
    unfolding pays using N by (intro split_sum) (simp_all add: less_imp_le)
  then have total: "sum_list (map payAmount (calculateDistribution winnerPlayers hev pot)) = ?M"
    by simp
  have ex: "map payAmount (calculateDistribution [a, b, c] hev (pot\<lparr> amount := 100 \<rparr>)) = [34, 33, 33]"
    by (simp add: calculateDistribution_def Let_def splitEntry_def jsRem_def upt_rec)
  from ids pays total ex show ?thesis by simp
qed

theorem split_pot_exact_witness:
  "amount (newPot MainId 0\<lparr> amount := 100 \<rparr>) > 0 \<and> [''A'', ''B'', ''C''] \<noteq> []
   \<and> map payAmount (calculateDistribution [''A'', ''B'', ''C''] Map.empty (newPot MainId 0\<lparr> amount := 100 \<rparr>)) = [34, 33, 33]
   \<and> sum_list (map payAmount (calculateDistribution [''A'', ''B'', ''C''] Map.empty (newPot MainId 0\<lparr> amount := 100 \<rparr>))) = 100"
proof -
  have h1: "amount (newPot MainId 0\<lparr> amount := 100 \<rparr>) > 0" by (simp add: newPot_def)
  have h2: "[''A'', ''B'', ''C''] \<noteq> []" by simp
  from split_pot_exact [OF h1 h2, of Map.empty] h1 show ?thesis
    by (simp add: newPot_def upt_rec)
qed

section \<open>Distribution of all pots\<close>

lemmas scenario_defs = sidePotScenario_def scenarioMainPot_def
          scenarioSidePot_def updateTotalAmount_def newPotManager_def newPot_def
          addPlayerContribution_def newPlayerContribution_def addContribution_def
          addToRound_def setAdd_def

lemma markWon_flags: "isDistributed (markWon p d) = isDistributed p \<and> isLocked (markWon p d) = isLocked p"
  by (simp add: markWon_def split: option.splits)

lemma foldl_markWon_flags:
  "isDistributed (foldl markWon p ds) = isDistributed p \<and> isLocked (foldl markWon p ds) = isLocked p"
  by (induction ds arbitrary: p) (simp_all add: markWon_flags)

lemma distributeToWinners_marks:
  "snd (distributeToWinners ws hev p) = p
   \<or> (isDistributed (snd (distributeToWinners ws hev p)) \<and> isLocked (snd (distributeToWinners ws hev p)))"
  by (simp add: distributeToWinners_def Let_def foldl_markWon_flags)

lemma distributeLoop_marks:
  "list_all2 (\<lambda>p p'. p' = p \<or> (isDistributed p' \<and> isLocked p')) ps (fst (distributeLoop ws hev ps d))"
proof (induction ps arbitrary: d)
  case Nil
  then show ?case by simp
next
  case (Cons p ps)
  show ?case
    using Cons.IH distributeToWinners_marks [of "filter (isPlayerEligible p) ws" hev p]
    by (auto simp: Let_def split_beta)
qed

lemma distributeLoop_length: "length (fst (distributeLoop ws hev ps d)) = length ps"
  using distributeLoop_marks [of ps ws hev d] by (simp add: list_all2_lengthD)

lemma saveToHistory_fields:
  "isShowdown (saveToHistory d pm) = isShowdown pm"
  "lastDistribution (saveToHistory d pm) = lastDistribution pm"
  "mainPot (saveToHistory d pm) = mainPot pm"
  "sidePots (saveToHistory d pm) = sidePots pm"
  by (simp_all add: saveToHistory_def Let_def)

lemma distributeAllPots_after:
  "isShowdown (snd (distributeAllPots now ws hev pm))
   \<and> lastDistribution (snd (distributeAllPots now ws hev pm)) = fst (distributeAllPots now ws hev pm)"
  by (simp add: distributeAllPots_def saveToHistory_fields split_beta)

lemma distributeAllPots_pots:
  "mainPot (snd (distributeAllPots now ws hev pm)) # sidePots (snd (distributeAllPots now ws hev pm))
   = (if isShowdown pm then mainPot pm # sidePots pm
      else fst (distributeLoop ws hev (mainPot pm # sidePots pm)
                  \<lparr> timestamp = now, dPots = [], totalDistributed = 0, dWinners = [] \<rparr>))"
proof (cases "isShowdown pm")
  case True
  then show ?thesis by (simp add: distributeAllPots_def)
next
  case False
  let ?l = "fst (distributeLoop ws hev (mainPot pm # sidePots pm)
                  \<lparr> timestamp = now, dPots = [], totalDistributed = 0, dWinners = [] \<rparr>)"
  have "length ?l = Suc (length (sidePots pm))" by (simp only: distributeLoop_length length_Cons)
  then have "?l \<noteq> []" by auto
  then have "hd ?l # tl ?l = ?l" by simp
  with False show ?thesis
    by (simp add: distributeAllPots_def saveToHistory_fields split_beta)
qed

lemma calculateDistribution_total:
  assumes "amount pot > 0" and "ws \<noteq> []"
  shows "sum_list (map payAmount (calculateDistribution ws hev pot)) = amount pot"
proof -
  let ?N = "length ws"
  let ?M = "amount pot"
  have N: "0 < int ?N" using assms(2) by simp
  have pays: "map payAmount (calculateDistribution ws hev pot)
           = map (\<lambda>i. ?M div int ?N + (if int i < ?M mod int ?N then 1 else 0)) [0 ..< ?N]"
  proof (cases "?N = 1")
    case True
    then show ?thesis by (simp add: calculateDistribution_def)
  next
    case False
    then show ?thesis
      using assms(1) N
            payAmount_split [of hev "amount pot div int (length ws)"
                               "amount pot mod int (length ws)" ws]
      by (simp add: calculateDistribution_def Let_def jsRem_pos)
  qed
  have "sum_list (map payAmount (calculateDistribution ws hev pot))
        = int ?N * (?M div int ?N) + ?M mod int ?N"
    unfolding pays using N by (intro split_sum) (simp_all add: less_imp_le)
  then show ?thesis by simp
qed

lemma creditWinner_fields:
  "totalDistributed (creditWinner d x) = totalDistributed d + payAmount x"
  "timestamp (creditWinner d x) = timestamp d"
  "dPots (creditWinner d x) = dPots d"
  by (simp_all add: creditWinner_def Let_def)

lemma foldl_creditWinner_fields:
  "totalDistributed (foldl creditWinner d xs) = totalDistributed d + sum_list (map payAmount xs)"
  "timestamp (foldl creditWinner d xs) = timestamp d"
  "dPots (foldl creditWinner d xs) = dPots d"
  by (induction xs arbitrary: d) (simp_all add: creditWinner_fields)

lemma markWon_fields:
  "winners (markWon p d) = winners p"
  "amount (markWon p d) = amount p"
  "potId (markWon p d) = potId p"
  "eligiblePlayers (markWon p d) = eligiblePlayers p"
  by (simp_all add: markWon_def split: option.splits)

lemma foldl_markWon_fields:
  "winners (foldl markWon p ds) = winners p"
  "amount (foldl markWon p ds) = amount p"
  "potId (foldl markWon p ds) = potId p"
  "eligiblePlayers (foldl markWon p ds) = eligiblePlayers p"
  by (induction ds arbitrary: p) (simp_all add: markWon_fields)

text \<open>
  A pot that is not yet distributed, holds chips and is given a non-empty list of winners
  pays out its whole amount and comes back marked.
\<close>

lemma distributeToWinners_pays:
  assumes "\<not> isDistributed p" and "0 < amount p" and "ews \<noteq> []"
  shows "sum_list (map payAmount (fst (distributeToWinners ews hev p))) = amount p"
    and "isDistributed (snd (distributeToWinners ews hev p))"
    and "isLocked (snd (distributeToWinners ews hev p))"
    and "winners (snd (distributeToWinners ews hev p)) = ews"
    and "amount (snd (distributeToWinners ews hev p)) = amount p"
    and "potId (snd (distributeToWinners ews hev p)) = potId p"
    and "eligiblePlayers (snd (distributeToWinners ews hev p)) = eligiblePlayers p"
proof -
  let ?p1 = "p\<lparr> winners := ews, isDistributed := True, isLocked := True \<rparr>"
  have r: "distributeToWinners ews hev p
           = (calculateDistribution ews hev ?p1, foldl markWon ?p1 (calculateDistribution ews hev ?p1))"
    using assms by (simp add: distributeToWinners_def Let_def)
  have "0 < amount ?p1" using assms(2) by simp
  from calculateDistribution_total [OF this assms(3), of hev]
  show "sum_list (map payAmount (fst (distributeToWinners ews hev p))) = amount p"
    by (simp add: r)
  show "isDistributed (snd (distributeToWinners ews hev p))"
    by (simp add: r foldl_markWon_flags)
  show "isLocked (snd (distributeToWinners ews hev p))"
    by (simp add: r foldl_markWon_flags)
  show "winners (snd (distributeToWinners ews hev p)) = ews"
    by (simp add: r foldl_markWon_fields)
  show "amount (snd (distributeToWinners ews hev p)) = amount p"
    by (simp add: r foldl_markWon_fields)
  show "potId (snd (distributeToWinners ews hev p)) = potId p"
    by (simp add: r foldl_markWon_fields)
  show "eligiblePlayers (snd (distributeToWinners ews hev p)) = eligiblePlayers p"
    by (simp add: r foldl_markWon_fields)
qed

lemma distributeToWinners_done:
  "isDistributed p \<Longrightarrow> distributeToWinners ews hev p = ([], p)"
  by (simp add: distributeToWinners_def)

text \<open>
  One round of the loop of \<open>distributeAllPots\<close>, by what it does to the pot: it pays it, or
  records an empty payment for a pot that was distributed before, or skips it.
\<close>

lemma distributeLoop_step:
  "distributeLoop ws hev (p # ps) d =
     (if \<not> isDistributed p \<and> 0 < amount p \<and> filter (isPlayerEligible p) ws \<noteq> [] then
        (snd (distributeToWinners (filter (isPlayerEligible p) ws) hev p)
           # fst (distributeLoop ws hev ps
                    ((foldl creditWinner d (fst (distributeToWinners (filter (isPlayerEligible p) ws) hev p)))
                       \<lparr> dPots := dPots d @
                           [\<lparr> ePotId = potId p, eAmount = amount p,
                              eDistribution = fst (distributeToWinners (filter (isPlayerEligible p) ws) hev p),
                              eligibleWinners = filter (isPlayerEligible p) ws \<rparr>] \<rparr>)),
         snd (distributeLoop ws hev ps
                    ((foldl creditWinner d (fst (distributeToWinners (filter (isPlayerEligible p) ws) hev p)))
                       \<lparr> dPots := dPots d @
                           [\<lparr> ePotId = potId p, eAmount = amount p,
                              eDistribution = fst (distributeToWinners (filter (isPlayerEligible p) ws) hev p),
                              eligibleWinners = filter (isPlayerEligible p) ws \<rparr>] \<rparr>)))
      else if 0 < amount p \<and> filter (isPlayerEligible p) ws \<noteq> [] then
        (p # fst (distributeLoop ws hev ps
                    (d\<lparr> dPots := dPots d @
                           [\<lparr> ePotId = potId p, eAmount = amount p, eDistribution = [],
                              eligibleWinners = filter (isPlayerEligible p) ws \<rparr>] \<rparr>)),
         snd (distributeLoop ws hev ps
                    (d\<lparr> dPots := dPots d @
                           [\<lparr> ePotId = potId p, eAmount = amount p, eDistribution = [],
                              eligibleWinners = filter (isPlayerEligible p) ws \<rparr>] \<rparr>)))
      else (p # fst (distributeLoop ws hev ps d), snd (distributeLoop ws hev ps d)))"
proof (cases "\<not> isDistributed p \<and> 0 < amount p \<and> filter (isPlayerEligible p) ws \<noteq> []")
  case True
  then have a: "\<not> isDistributed p" and b: "0 < amount p" and c: "filter (isPlayerEligible p) ws \<noteq> []"
    by simp_all
  from True show ?thesis
    using distributeToWinners_pays(5,6) [OF a b c, of hev]
    by (simp add: Let_def split_beta foldl_creditWinner_fields)
next
  case False
  then show ?thesis
    by (auto simp: Let_def split_beta distributeToWinners_done)
qed

lemma distributeLoop_paid:
  "list_all2
     (\<lambda>p p'. if \<not> isDistributed p \<and> 0 < amount p \<and> filter (isPlayerEligible p) ws \<noteq> []
              then isDistributed p' \<and> isLocked p' \<and> winners p' = filter (isPlayerEligible p) ws
                   \<and> amount p' = amount p \<and> potId p' = potId p
                   \<and> eligiblePlayers p' = eligiblePlayers p
              else p' = p)
     ps (fst (distributeLoop ws hev ps d))"
proof (induction ps arbitrary: d)
  case Nil
  then show ?case by simp
next
  case (Cons p ps)
  show ?case
  proof (cases "\<not> isDistributed p \<and> 0 < amount p \<and> filter (isPlayerEligible p) ws \<noteq> []")
    case True
    then have a: "\<not> isDistributed p" and b: "0 < amount p" and c: "filter (isPlayerEligible p) ws \<noteq> []"
      by simp_all
    from True show ?thesis
      using distributeToWinners_pays(2-7) [OF a b c, of hev] Cons.IH
      by (simp only: distributeLoop_step) simp
  next
    case False
    then show ?thesis
      using Cons.IH by (simp only: distributeLoop_step) auto
  qed
qed

lemma distributeLoop_total:
  "totalDistributed (snd (distributeLoop ws hev ps d))
   = totalDistributed d
     + sum_list (map amount
         (filter (\<lambda>p. \<not> isDistributed p \<and> 0 < amount p \<and> filter (isPlayerEligible p) ws \<noteq> []) ps))"
proof (induction ps arbitrary: d)
  case Nil
  then show ?case by simp
next
  case (Cons p ps)
  show ?case
  proof (cases "\<not> isDistributed p \<and> 0 < amount p \<and> filter (isPlayerEligible p) ws \<noteq> []")
    case True
    then have a: "\<not> isDistributed p" and b: "0 < amount p" and c: "filter (isPlayerEligible p) ws \<noteq> []"
      by simp_all
    from True show ?thesis
      using distributeToWinners_pays(1) [OF a b c, of hev]
      by (simp only: distributeLoop_step) (simp add: Cons.IH foldl_creditWinner_fields)
  next
    case False
    then show ?thesis
      by (simp only: distributeLoop_step) (auto simp: Cons.IH)
  qed
qed

lemma distributeLoop_timestamp:
  "timestamp (snd (distributeLoop ws hev ps d)) = timestamp d"
proof (induction ps arbitrary: d)
  case Nil
  then show ?case by simp
next
  case (Cons p ps)
  show ?case
    by (simp only: distributeLoop_step) (simp add: Cons.IH foldl_creditWinner_fields)
qed

lemma distributeLoop_dPots:
  "map ePotId (dPots (snd (distributeLoop ws hev ps d)))
   = map ePotId (dPots d)
     @ map potId (filter (\<lambda>p. 0 < amount p \<and> filter (isPlayerEligible p) ws \<noteq> []) ps)"
proof (induction ps arbitrary: d)
  case Nil
  then show ?case by simp
next
  case (Cons p ps)
  show ?case
    by (simp only: distributeLoop_step) (simp add: Cons.IH foldl_creditWinner_fields)
qed

lemma distributeAllPots_first:
  assumes "\<not> isShowdown pm"
  shows "fst (distributeAllPots now ws hev pm)
           = Some (snd (distributeLoop ws hev (mainPot pm # sidePots pm)
                          \<lparr> timestamp = now, dPots = [], totalDistributed = 0, dWinners = [] \<rparr>))"
    and "totalAmount (snd (distributeAllPots now ws hev pm)) = totalAmount pm"
  using assms by (simp_all add: distributeAllPots_def split_beta saveToHistory_def Let_def)

text \<open>
  Claim C7, with its parenthesis put right. Whatever winners, evaluations and clock a later
  call of \<open>distributeAllPots\<close> is given, it returns the result of the first call and leaves
  the ledger as the first call left it: the first call sets the showdown flag and keeps its
  result in \<open>lastDistribution\<close>, and a call on a ledger whose flag is set returns
  \<open>lastDistribution\<close> and assigns nothing. The first call on a ledger whose flag is not set
  pays each pot that is not yet distributed, holds chips and has at least one listed winner
  eligible for it: such a pot comes back marked distributed and locked, with those winners
  recorded and its amount in place, and the total distributed is the sum of the amounts of
  these pots. Every other pot (empty, without an eligible listed winner, or distributed
  before) comes back exactly as it was, so not every pot is marked after the first call; it
  is the showdown flag that keeps a later call from paying. The ledger's \<open>totalAmount\<close> is
  not reduced. A pot that is marked distributed pays nobody when asked again.
\<close>

theorem distributeAllPots_pays_once:
  "distributeAllPots later ws' hev' (snd (distributeAllPots now ws hev pm)) = distributeAllPots now ws hev pm
   \<and> isShowdown (snd (distributeAllPots now ws hev pm))
   \<and> lastDistribution (snd (distributeAllPots now ws hev pm)) = fst (distributeAllPots now ws hev pm)
   \<and> (isShowdown pm \<longrightarrow> distributeAllPots now ws hev pm = (lastDistribution pm, pm))
   \<and> (\<not> isShowdown pm \<longrightarrow>
        map_option timestamp (fst (distributeAllPots now ws hev pm)) = Some now
        \<and> map_option totalDistributed (fst (distributeAllPots now ws hev pm))
            = Some (sum_list (map amount
                (filter (\<lambda>p. \<not> isDistributed p \<and> 0 < amount p \<and> filter (isPlayerEligible p) ws \<noteq> [])
                   (mainPot pm # sidePots pm))))
        \<and> map_option (\<lambda>d. map ePotId (dPots d)) (fst (distributeAllPots now ws hev pm))
            = Some (map potId
                (filter (\<lambda>p. 0 < amount p \<and> filter (isPlayerEligible p) ws \<noteq> [])
                   (mainPot pm # sidePots pm)))
        \<and> list_all2
             (\<lambda>p p'. if \<not> isDistributed p \<and> 0 < amount p \<and> filter (isPlayerEligible p) ws \<noteq> []
                      then isDistributed p' \<and> isLocked p' \<and> winners p' = filter (isPlayerEligible p) ws
                           \<and> amount p' = amount p \<and> potId p' = potId p
                           \<and> eligiblePlayers p' = eligiblePlayers p
                      else p' = p)
             (mainPot pm # sidePots pm)
             (mainPot (snd (distributeAllPots now ws hev pm)) # sidePots (snd (distributeAllPots now ws hev pm)))
        \<and> totalAmount (snd (distributeAllPots now ws hev pm)) = totalAmount pm)
   \<and> distributeToWinners ws' hev' (pot\<lparr> isDistributed := True \<rparr>) = ([], pot\<lparr> isDistributed := True \<rparr>)"
proof -
  let ?r = "distributeAllPots now ws hev pm"
  let ?d0 = "\<lparr> timestamp = now, dPots = [], totalDistributed = 0, dWinners = [] \<rparr>"
  let ?ps = "mainPot pm # sidePots pm"
  have "distributeAllPots later ws' hev' (snd ?r) = (lastDistribution (snd ?r), snd ?r)"
    using distributeAllPots_after [of now ws hev pm] by (simp add: distributeAllPots_def)
  then have a: "distributeAllPots later ws' hev' (snd ?r) = ?r"
    using distributeAllPots_after [of now ws hev pm] by simp
  have b: "isShowdown (snd ?r)" and c: "lastDistribution (snd ?r) = fst ?r"
    using distributeAllPots_after [of now ws hev pm] by simp_all
  have d: "isShowdown pm \<longrightarrow> ?r = (lastDistribution pm, pm)"
    by (simp add: distributeAllPots_def)
  have e: "map_option timestamp (fst ?r) = Some now" if "\<not> isShowdown pm"
    by (simp only: distributeAllPots_first(1) [OF that] option.map distributeLoop_timestamp) simp
  have f: "map_option totalDistributed (fst ?r)
            = Some (sum_list (map amount
                (filter (\<lambda>p. \<not> isDistributed p \<and> 0 < amount p \<and> filter (isPlayerEligible p) ws \<noteq> []) ?ps)))"
    if "\<not> isShowdown pm"
    by (simp only: distributeAllPots_first(1) [OF that] option.map distributeLoop_total) simp
  have g: "map_option (\<lambda>d. map ePotId (dPots d)) (fst ?r)
            = Some (map potId (filter (\<lambda>p. 0 < amount p \<and> filter (isPlayerEligible p) ws \<noteq> []) ?ps))"
    if "\<not> isShowdown pm"
    by (simp only: distributeAllPots_first(1) [OF that] option.map distributeLoop_dPots) simp
  have h: "list_all2
             (\<lambda>p p'. if \<not> isDistributed p \<and> 0 < amount p \<and> filter (isPlayerEligible p) ws \<noteq> []
                      then isDistributed p' \<and> isLocked p' \<and> winners p' = filter (isPlayerEligible p) ws
                           \<and> amount p' = amount p \<and> potId p' = potId p
                           \<and> eligiblePlayers p' = eligiblePlayers p
                      else p' = p)
             ?ps (mainPot (snd ?r) # sidePots (snd ?r))"
    if "\<not> isShowdown pm"
    using distributeLoop_paid [of ws ?ps hev ?d0] that
    by (simp only: distributeAllPots_pots if_False)
  have i: "totalAmount (snd ?r) = totalAmount pm" if "\<not> isShowdown pm"
    by (rule distributeAllPots_first(2) [OF that])
  have j: "distributeToWinners ws' hev' (pot\<lparr> isDistributed := True \<rparr>) = ([], pot\<lparr> isDistributed := True \<rparr>)"
    by (simp add: distributeToWinners_def)
  from a b c d e f g h i j show ?thesis by blast
qed

text \<open>
  The side-pot scenario with A as the only listed winner: the main pot is paid (300) and
  marked, the side pot comes back as it was, and a second call with another winner returns
  the same result; on a ledger whose showdown flag is set before any distribution the call
  returns \<^verbatim>\<open>null\<close>.
\<close>

theorem distributeAllPots_pays_once_witness:
  "\<not> isShowdown sidePotScenario
   \<and> distributeAllPots ''t1'' [''B''] Map.empty (snd (distributeAllPots ''t0'' [''A''] Map.empty sidePotScenario))
       = distributeAllPots ''t0'' [''A''] Map.empty sidePotScenario
   \<and> map_option timestamp (fst (distributeAllPots ''t0'' [''A''] Map.empty sidePotScenario)) = Some ''t0''
   \<and> map_option totalDistributed (fst (distributeAllPots ''t0'' [''A''] Map.empty sidePotScenario)) = Some 300
   \<and> map_option (\<lambda>d. map ePotId (dPots d)) (fst (distributeAllPots ''t0'' [''A''] Map.empty sidePotScenario))
       = Some [MainId]
   \<and> totalAmount (snd (distributeAllPots ''t0'' [''A''] Map.empty sidePotScenario)) = 700
   \<and> isDistributed (mainPot (snd (distributeAllPots ''t0'' [''A''] Map.empty sidePotScenario)))
   \<and> winners (mainPot (snd (distributeAllPots ''t0'' [''A''] Map.empty sidePotScenario))) = [''A'']
   \<and> sidePots (snd (distributeAllPots ''t0'' [''A''] Map.empty sidePotScenario)) = sidePots sidePotScenario
   \<and> isShowdown (sidePotScenario\<lparr> isShowdown := True \<rparr>)
   \<and> distributeAllPots ''t0'' [''A''] Map.empty (sidePotScenario\<lparr> isShowdown := True \<rparr>)
       = (None, sidePotScenario\<lparr> isShowdown := True \<rparr>)"
proof -
  let ?r = "distributeAllPots ''t0'' [''A''] Map.empty sidePotScenario"
  have n: "\<not> isShowdown sidePotScenario" by (simp add: scenario_defs)
  note t = distributeAllPots_pays_once
             [of "''t1''" "[''B'']" Map.empty "''t0''" "[''A'']" Map.empty sidePotScenario scenarioSidePot]
  from t have a: "distributeAllPots ''t1'' [''B''] Map.empty (snd ?r) = ?r" by blast
  from t n have e: "map_option timestamp (fst ?r) = Some ''t0''" by blast
  from t n have f: "map_option totalDistributed (fst ?r)
            = Some (sum_list (map amount
                (filter (\<lambda>p. \<not> isDistributed p \<and> 0 < amount p \<and> filter (isPlayerEligible p) [''A''] \<noteq> [])
                   (mainPot sidePotScenario # sidePots sidePotScenario))))" by blast
  have f': "sum_list (map amount
                (filter (\<lambda>p. \<not> isDistributed p \<and> 0 < amount p \<and> filter (isPlayerEligible p) [''A''] \<noteq> [])
                   (mainPot sidePotScenario # sidePots sidePotScenario))) = 300"
    by (simp add: scenario_defs isPlayerEligible_def Let_def)
  from t n have g: "map_option (\<lambda>d. map ePotId (dPots d)) (fst ?r)
            = Some (map potId (filter (\<lambda>p. 0 < amount p \<and> filter (isPlayerEligible p) [''A''] \<noteq> [])
                   (mainPot sidePotScenario # sidePots sidePotScenario)))" by blast
  have g': "map potId (filter (\<lambda>p. 0 < amount p \<and> filter (isPlayerEligible p) [''A''] \<noteq> [])
                   (mainPot sidePotScenario # sidePots sidePotScenario)) = [MainId]"
    by (simp add: scenario_defs isPlayerEligible_def Let_def)
  from t n have i: "totalAmount (snd ?r) = totalAmount sidePotScenario" by blast
  have i': "totalAmount sidePotScenario = 700" by (simp add: scenario_defs Let_def)
  have f2: "map_option totalDistributed (fst ?r) = Some 300" using f f' by simp
  have g2: "map_option (\<lambda>d. map ePotId (dPots d)) (fst ?r) = Some [MainId]" using g g' by simp
  have i2: "totalAmount (snd ?r) = 700" using i i' by simp
  from t n have h: "list_all2
             (\<lambda>p p'. if \<not> isDistributed p \<and> 0 < amount p \<and> filter (isPlayerEligible p) [''A''] \<noteq> []
                      then isDistributed p' \<and> isLocked p' \<and> winners p' = filter (isPlayerEligible p) [''A'']
                           \<and> amount p' = amount p \<and> potId p' = potId p
                           \<and> eligiblePlayers p' = eligiblePlayers p
                      else p' = p)
             (mainPot sidePotScenario # sidePots sidePotScenario)
             (mainPot (snd ?r) # sidePots (snd ?r))" by blast
  have m1: "\<not> isDistributed (mainPot sidePotScenario) \<and> 0 < amount (mainPot sidePotScenario)
            \<and> filter (isPlayerEligible (mainPot sidePotScenario)) [''A''] = [''A'']"
    by (simp add: scenario_defs isPlayerEligible_def Let_def)
  have s1: "sidePots sidePotScenario = [scenarioSidePot]"
    by (simp add: sidePotScenario_def updateTotalAmount_def)
  have s2: "filter (isPlayerEligible scenarioSidePot) [''A''] = []"
    by (simp add: scenario_defs isPlayerEligible_def Let_def)
  from h have hm: "isDistributed (mainPot (snd ?r)) \<and> winners (mainPot (snd ?r)) = [''A'']"
    using m1 by simp
  from h have hs: "sidePots (snd ?r) = sidePots sidePotScenario"
    using s2 by (simp add: s1 list_all2_Cons1)
  note u = distributeAllPots_pays_once
             [of "''t1''" "[''B'']" Map.empty "''t0''" "[''A'']" Map.empty
                 "sidePotScenario\<lparr> isShowdown := True \<rparr>" scenarioSidePot]
  have k: "isShowdown (sidePotScenario\<lparr> isShowdown := True \<rparr>)" by simp
  have l: "lastDistribution (sidePotScenario\<lparr> isShowdown := True \<rparr>) = None" by (simp add: scenario_defs)
  from u k have "distributeAllPots ''t0'' [''A''] Map.empty (sidePotScenario\<lparr> isShowdown := True \<rparr>)
       = (lastDistribution (sidePotScenario\<lparr> isShowdown := True \<rparr>), sidePotScenario\<lparr> isShowdown := True \<rparr>)"
    by blast
  then have o: "distributeAllPots ''t0'' [''A''] Map.empty (sidePotScenario\<lparr> isShowdown := True \<rparr>)
       = (None, sidePotScenario\<lparr> isShowdown := True \<rparr>)" using l by simp
  from hm have hm1: "isDistributed (mainPot (snd ?r))" and hm2: "winners (mainPot (snd ?r)) = [''A'']"
    by simp_all
  show ?thesis
    by (intro conjI) (rule n, rule a, rule e, rule f2, rule g2, rule i2, rule hm1, rule hm2, rule hs,
                     rule k, rule o)
qed

text \<open>
  Not every pot is marked distributed after the first call. In the side-pot scenario with A
  as the only listed winner, the side pot of 400 has no eligible listed winner: it is
  skipped and stays unmarked, although the showdown is over. The empty main pot of a new
  ledger is skipped in the same way.
\<close>

theorem skipped_pot_stays_unmarked_counterexample:
  "map isDistributed (mainPot (snd (distributeAllPots ''t0'' [''A''] Map.empty sidePotScenario))
                      # sidePots (snd (distributeAllPots ''t0'' [''A''] Map.empty sidePotScenario)))
     = [True, False]
   \<and> map amount (mainPot (snd (distributeAllPots ''t0'' [''A''] Map.empty sidePotScenario))
                      # sidePots (snd (distributeAllPots ''t0'' [''A''] Map.empty sidePotScenario)))
     = [300, 400]
   \<and> isShowdown (snd (distributeAllPots ''t0'' [''A''] Map.empty sidePotScenario))
   \<and> isDistributed (mainPot (snd (distributeAllPots ''t0'' [''A''] Map.empty newPotManager))) = False"
  by (simp add: scenario_defs distributeAllPots_def isPlayerEligible_def distributeToWinners_def
        calculateDistribution_def markWon_def creditWinner_def saveToHistory_def Let_def)

section \<open>The ledger between distributions\<close>

text \<open>
  A side pot fresh from \<open>createNewSidePot\<close> has no contribution, so the space it offers to
  any player is at most 0: the loop of \<open>addBet\<close> that creates side pots never places a chip
  and never pushes a pot. Entered with chips remaining, it does not end.
\<close>

lemma maxContribution_newPot [simp]: "maxContribution (createNewSidePot pm) = 0"
  by (simp add: maxContribution_def createNewSidePot_def newPot_def Let_def)

lemma getPlayerContribution_newPot [simp]: "getPlayerContribution (createNewSidePot pm) pid = 0"
  by (simp add: getPlayerContribution_def createNewSidePot_def newPot_def Let_def)

lemma newSidePot_no_space: "getPotSpaceForPlayer pid (createNewSidePot pm) a \<le> 0"
  by (cases a) (simp_all add: getPotSpaceForPlayer_def Let_def)

lemma addBetNewPots_Some:
  assumes "addBetNewPots pid a pm remaining affected = Some r"
  shows "remaining \<le> 0 \<and> r = (pm, remaining, affected)"
proof (rule addBetNewPots.raw_induct
         [where P = "\<lambda>pid a pm remaining affected r. remaining \<le> 0 \<and> r = (pm, remaining, affected)",
          OF _ assms])
  fix f :: "playerId \<Rightarrow> allInAmount \<Rightarrow> PotManager \<Rightarrow> int \<Rightarrow> (pot_id \<times> int) list
              \<Rightarrow> (PotManager \<times> int \<times> (pot_id \<times> int) list) option"
    and pid :: playerId and a :: allInAmount and pm :: PotManager and remaining :: int
    and affected :: "(pot_id \<times> int) list" and r
  assume IH: "\<And>pid a pm remaining affected r.
                f pid a pm remaining affected = Some r
                \<Longrightarrow> remaining \<le> 0 \<and> r = (pm, remaining, affected)"
  assume body: "(if remaining > 0 then
        (let newSidePot = createNewSidePot pm;
             potSpace = getPotSpaceForPlayer pid newSidePot a;
             amountToNewPot = min remaining potSpace
         in if amountToNewPot > 0 then
              f pid a
                (pm\<lparr> sidePots := sidePots pm @
                       [snd (addPlayerContribution pid amountToNewPot (currentRound pm) newSidePot)] \<rparr>)
                (remaining - amountToNewPot)
                (affected @ [(potId newSidePot, amountToNewPot)])
            else f pid a pm remaining affected)
      else Some (pm, remaining, affected)) = Some r"
  show "remaining \<le> 0 \<and> r = (pm, remaining, affected)"
  proof (cases "remaining > 0")
    case True
    have "\<not> 0 < getPotSpaceForPlayer pid (createNewSidePot pm) a"
      using newSidePot_no_space [of pid pm a] by simp
    with True body have "f pid a pm remaining affected = Some r"
      by (simp add: Let_def)
    from IH [OF this] True show ?thesis by simp
  next
    case False
    with body show ?thesis by auto
  qed
qed

lemma addBetNewPots_eq:
  "addBetNewPots pid a pm remaining affected
   = (if remaining > 0 then None else Some (pm, remaining, affected))"
proof (cases "remaining > 0")
  case True
  have "addBetNewPots pid a pm remaining affected = None"
  proof (cases "addBetNewPots pid a pm remaining affected")
    case None then show ?thesis .
  next
    case (Some r)
    from addBetNewPots_Some [OF this] True show ?thesis by simp
  qed
  with True show ?thesis by simp
next
  case False
  then show ?thesis by (subst addBetNewPots.simps) simp
qed

lemma addBet_fresh_diverges:
  assumes "amt > 0"
  shows "addBet pid amt a newPotManager = None"
  using assms
  by (cases a)
     (simp_all add: addBet_def newPotManager_def newPot_def getPotSpaceForPlayer_def
        maxContribution_def getPlayerContribution_def Let_def addBetNewPots_eq)

lemma addBetSidePots_length:
  "length (fst (addBetSidePots pid a rnd sps remaining affected)) = length sps"
  by (induction sps arbitrary: remaining affected) (simp_all add: Let_def split_beta)

lemma addBet_sidePots_length:
  assumes "addBet pid amt a pm = Some (r, pm')"
  shows "length (sidePots pm') = length (sidePots pm)"
  using assms
  by (auto simp: addBet_def Let_def addBetNewPots_eq updateTotalAmount_def split_beta
        addBetSidePots_length split: if_splits)

lemma handleExcess_id [simp]: "handleExcessContribution pot pid x pm = pm"
  by (simp add: handleExcessContribution_def Let_def)

lemma recalculateLoop_id [simp]: "recalculateLoop pid a sps t pm = pm"
  by (induction sps arbitrary: t) (simp_all add: Let_def)

lemma playerAllIn_eq: "playerAllIn pid a pm = updateTotalAmount pm"
  by (simp add: playerAllIn_def recalculateForAllIn_def)

lemma applyOp_length:
  "applyOp x pm = Some pm' \<Longrightarrow> length (sidePots pm') = length (sidePots pm)"
  by (cases x) (auto simp: playerFolds_def playerAllIn_eq updateTotalAmount_def
        dest: addBet_sidePots_length)

lemma runOps_length:
  "runOps xs pm = Some pm' \<Longrightarrow> length (sidePots pm') = length (sidePots pm)"
proof (induction xs arbitrary: pm)
  case Nil then show ?case by simp
next
  case (Cons x xs)
  then show ?case by (auto split: option.splits dest: applyOp_length)
qed

lemma monotonic_folds:
  assumes "monotonicEligibility pm"
  shows "monotonicEligibility (playerFolds pid pm)"
  using assms
  by (auto simp: monotonicEligibility_def playerFolds_def removeEligiblePlayer_def)

lemma monotonic_allIn:
  assumes "monotonicEligibility pm"
  shows "monotonicEligibility (playerAllIn pid a pm)"
  using assms by (simp add: monotonicEligibility_def playerAllIn_eq updateTotalAmount_def)

text \<open>
  From a new ledger the three operations lead nowhere: a fold and an all-in leave it as it
  is, and so does \<open>addBet\<close> with an amount that is not positive, the only \<open>addBet\<close> that
  returns.
\<close>

lemma playerFolds_fresh: "playerFolds pid newPotManager = newPotManager"
  by (simp add: playerFolds_def removeEligiblePlayer_def newPotManager_def newPot_def)

lemma playerAllIn_fresh: "playerAllIn pid a newPotManager = newPotManager"
  by (simp add: playerAllIn_eq updateTotalAmount_def newPotManager_def newPot_def)

lemma addBet_fresh: "addBet pid amt a newPotManager = Some (r, pm) \<Longrightarrow> pm = newPotManager"
proof (cases "amt > 0")
  case True
  assume "addBet pid amt a newPotManager = Some (r, pm)"
  with addBet_fresh_diverges [OF True, of pid a] show ?thesis by simp
next
  case False
  assume "addBet pid amt a newPotManager = Some (r, pm)"
  with False show ?thesis by (simp add: addBet_def)
qed

lemma applyOp_fresh: "applyOp x newPotManager = Some pm \<Longrightarrow> pm = newPotManager"
  by (cases x) (auto simp: playerFolds_fresh playerAllIn_fresh dest: addBet_fresh)

lemma runOps_fresh: "runOps ops newPotManager = Some pm \<Longrightarrow> pm = newPotManager"
proof (induction ops)
  case Nil then show ?case by simp
next
  case (Cons x xs)
  then show ?case by (auto split: option.splits dest: applyOp_fresh)
qed


text \<open>The same run, read through the invariant: it holds before the contribution and not after.\<close>

lemma addBet_breaks_monotonicEligibility:
  "monotonicEligibility (playerFolds ''A'' sidePotScenario)
   \<and> map_option (\<lambda>r. monotonicEligibility (snd r))
        (addBet ''A'' 50 Infinity (playerFolds ''A'' sidePotScenario)) = Some False"
  by (simp add: scenario_defs playerFolds_def removeEligiblePlayer_def addBet_def
          getPotSpaceForPlayer_def maxContribution_def getPlayerContribution_def
          addBetNewPots_eq Let_def monotonicEligibility_def)

section \<open>Players: stacks and rejected actions\<close>

lemma addToBet_props:
  assumes "0 \<le> chips p"
  shows "0 \<le> fst (addToBet amt p) \<and> fst (addToBet amt p) \<le> chips p
       \<and> chips (snd (addToBet amt p)) = chips p - fst (addToBet amt p)
       \<and> bet (snd (addToBet amt p)) = bet p + fst (addToBet amt p)
       \<and> 0 \<le> chips (snd (addToBet amt p))
       \<and> (0 < amt \<and> chips p \<le> amt \<longrightarrow> fst (addToBet amt p) = chips p)
       \<and> (0 < amt \<and> amt \<le> chips p \<longrightarrow> fst (addToBet amt p) = amt)
       \<and> (0 < fst (addToBet amt p) \<and> chips (snd (addToBet amt p)) = 0 \<longrightarrow> isAllIn (snd (addToBet amt p)))
       \<and> (isAllIn p \<longrightarrow> isAllIn (snd (addToBet amt p)))"
  using assms by (auto simp: addToBet_def Let_def min_def)



lemma addToBet_safe:
  "0 \<le> chips p \<Longrightarrow>
   0 \<le> chips (snd (addToBet amt p))
   \<and> (chips (snd (addToBet amt p)) = 0 \<longrightarrow> chips p = 0 \<or> isAllIn (snd (addToBet amt p)))"
  by (auto simp: addToBet_def Let_def min_def)

lemma fold_safe: "chips (snd (fold p)) = chips p"
  by (simp add: fold_def)

lemma check_safe: "chips (snd (check cmb p)) = chips p"
  by (simp add: check_def)

lemma call_safe:
  "0 \<le> chips p \<Longrightarrow>
   0 \<le> chips (snd (call cmb p))
   \<and> (chips (snd (call cmb p)) = 0 \<longrightarrow> chips p = 0 \<or> isAllIn (snd (call cmb p)))"
  using addToBet_safe [of p "getCallAmount cmb p"]
  by (simp add: call_def check_def Let_def split_beta)

lemma raise_safe:
  "0 \<le> chips p \<Longrightarrow>
   0 \<le> chips (snd (raise amt cmb p))
   \<and> (chips (snd (raise amt cmb p)) = 0 \<longrightarrow> chips p = 0 \<or> isAllIn (snd (raise amt cmb p)))"
  using addToBet_safe [of p amt]
  by (simp add: raise_def Let_def split_beta)

lemma allIn_safe:
  "0 \<le> chips p \<Longrightarrow> chips (snd (allIn p)) = 0 \<and> isAllIn (snd (allIn p)) \<and> fst (allIn p) = chips p"
  by (auto simp: allIn_def addToBet_def Let_def split_beta)

lemma finishAction_safe:
  "chips (snd (finishAction a gs n p)) = chips p \<and> isAllIn (snd (finishAction a gs n p)) = isAllIn p"
  by (simp add: finishAction_def)

lemma takeAction_safe:
  assumes "0 \<le> chips p"
  shows "0 \<le> chips (snd (takeAction action amt gs p))
       \<and> (chips (snd (takeAction action amt gs p)) = 0
            \<longrightarrow> chips p = 0 \<or> isAllIn (snd (takeAction action amt gs p)))"
proof -
  define p1 where "p1 = (\<lambda>l. p\<lparr> lastAction := Some l, lastActionAmount := amt,
                hasActedThisRound := True, isCurrentTurn := False \<rparr>)"
  have p1: "0 \<le> chips (p1 l)" "chips (p1 l) = chips p" for l
    using assms by (simp_all add: p1_def)
  have c: "0 \<le> chips (snd (call (gsCurrentMaxBet gs) (p1 l)))"
          "chips (snd (call (gsCurrentMaxBet gs) (p1 l))) = 0
                \<Longrightarrow> chips p = 0 \<or> isAllIn (snd (call (gsCurrentMaxBet gs) (p1 l)))" for l
    using call_safe [OF p1(1), of "gsCurrentMaxBet gs" l] by (simp_all add: p1(2))
  have r: "0 \<le> chips (snd (raise amt (gsCurrentMaxBet gs) (p1 l)))"
          "chips (snd (raise amt (gsCurrentMaxBet gs) (p1 l))) = 0
                \<Longrightarrow> chips p = 0 \<or> isAllIn (snd (raise amt (gsCurrentMaxBet gs) (p1 l)))" for l
    using raise_safe [OF p1(1), of amt "gsCurrentMaxBet gs" l] by (simp_all add: p1(2))
  have a: "chips (snd (allIn (p1 l))) = 0" "isAllIn (snd (allIn (p1 l)))" for l
    using allIn_safe [OF p1(1), of l] by simp_all
  have f: "chips (snd (fold (p1 l))) = chips p" for l by (simp add: fold_safe p1(2))
  have k: "chips (snd (check (gsCurrentMaxBet gs) (p1 l))) = chips p" for l by (simp add: check_safe p1(2))
  have unfold: "takeAction action amt gs p =
     (if \<not> canAct gs p then (Inl CannotAct, p)
      else
        (let actionLower = toLowerCase action
         in if actionLower = ''fold'' then
              finishAction actionLower gs 0 (snd (fold (p1 actionLower)))
            else if actionLower = ''check'' then
              (case check (gsCurrentMaxBet gs) (p1 actionLower) of
                 (Inl e, p2) \<Rightarrow> (Inl e, p2)
               | (Inr chipsAdded, p2) \<Rightarrow> finishAction actionLower gs chipsAdded p2)
            else if actionLower = ''call'' then
              (case call (gsCurrentMaxBet gs) (p1 actionLower) of
                 (Inl e, p2) \<Rightarrow> (Inl e, p2)
               | (Inr chipsAdded, p2) \<Rightarrow> finishAction actionLower gs chipsAdded p2)
            else if actionLower = ''bet'' then (Inl TypeError, p1 actionLower)
            else if actionLower = ''raise'' then
              (case raise amt (gsCurrentMaxBet gs) (p1 actionLower) of
                 (Inl e, p2) \<Rightarrow> (Inl e, p2)
               | (Inr chipsAdded, p2) \<Rightarrow> finishAction actionLower gs chipsAdded p2)
            else if actionLower = ''allin'' then
              (case allIn (p1 actionLower) of (chipsAdded, p2) \<Rightarrow> finishAction actionLower gs chipsAdded p2)
            else (Inl (InvalidAction action), p1 actionLower)))"
    by (simp add: takeAction_def p1_def Let_def)
  show ?thesis
    unfolding unfold
    using assms
    by (simp add: Let_def finishAction_safe split_beta c r a f k p1 split: sum.split)
qed

text \<open>
  Claim C10. A stack that is not negative never becomes negative: \<open>addToBet\<close> moves
  \<open>min amount chips\<close> chips from the stack to the bet (nothing for an amount of 0 or less),
  so an amount above the stack commits the stack and no more; \<open>allIn\<close> commits the whole
  stack; and after any \<open>takeAction\<close> the stack is still not negative. Whenever a bet brings
  the stack to exactly 0, the player is marked all-in.
\<close>

theorem stack_never_negative:
  assumes "0 \<le> chips p"
  shows "0 \<le> fst (addToBet amt p) \<and> fst (addToBet amt p) \<le> chips p
       \<and> chips (snd (addToBet amt p)) = chips p - fst (addToBet amt p)
       \<and> bet (snd (addToBet amt p)) = bet p + fst (addToBet amt p)
       \<and> 0 \<le> chips (snd (addToBet amt p))
       \<and> (chips p < amt \<longrightarrow> fst (addToBet amt p) = chips p)
       \<and> (0 < fst (addToBet amt p) \<and> chips (snd (addToBet amt p)) = 0
            \<longrightarrow> isAllIn (snd (addToBet amt p)))
       \<and> fst (allIn p) = chips p \<and> chips (snd (allIn p)) = 0 \<and> isAllIn (snd (allIn p))
       \<and> 0 \<le> chips (snd (takeAction action n gs p))
       \<and> (0 < chips p \<and> chips (snd (takeAction action n gs p)) = 0
            \<longrightarrow> isAllIn (snd (takeAction action n gs p)))"
proof -
  have a: "fst (allIn p) = chips p \<and> chips (snd (allIn p)) = 0 \<and> isAllIn (snd (allIn p))"
    using allIn_safe [OF assms] by simp
  have t: "0 \<le> chips (snd (takeAction action n gs p))
       \<and> (0 < chips p \<and> chips (snd (takeAction action n gs p)) = 0
            \<longrightarrow> isAllIn (snd (takeAction action n gs p)))"
    using takeAction_safe [OF assms, of action n gs] by auto
  have b: "chips p < amt \<longrightarrow> fst (addToBet amt p) = chips p"
    using assms by (auto simp: addToBet_def Let_def min_def)
  have c: "0 \<le> fst (addToBet amt p) \<and> fst (addToBet amt p) \<le> chips p
       \<and> chips (snd (addToBet amt p)) = chips p - fst (addToBet amt p)
       \<and> bet (snd (addToBet amt p)) = bet p + fst (addToBet amt p)
       \<and> 0 \<le> chips (snd (addToBet amt p))"
    using addToBet_props [OF assms, of amt] by blast
  have d: "0 < fst (addToBet amt p) \<and> chips (snd (addToBet amt p)) = 0
            \<longrightarrow> isAllIn (snd (addToBet amt p))"
    using addToBet_props [OF assms, of amt] by blast
  from a t b c d show ?thesis by blast
qed

theorem stack_never_negative_witness:
  "0 \<le> chips (newPokerPlayer ''A'' 100 0)
   \<and> fst (addToBet 250 (newPokerPlayer ''A'' 100 0)) = 100
   \<and> chips (snd (addToBet 250 (newPokerPlayer ''A'' 100 0))) = 0
   \<and> isAllIn (snd (addToBet 250 (newPokerPlayer ''A'' 100 0)))
   \<and> 0 \<le> chips (snd (takeAction ''allin'' 0 facingBet (newPokerPlayer ''A'' 100 0)))"
proof -
  have h: "0 \<le> chips (newPokerPlayer ''A'' 100 0)" by (simp add: newPokerPlayer_def)
  have v: "chips (newPokerPlayer ''A'' 100 0) = 100" by (simp add: newPokerPlayer_def)
  have "fst (addToBet 250 (newPokerPlayer ''A'' 100 0)) = chips (newPokerPlayer ''A'' 100 0)"
       "chips (snd (addToBet 250 (newPokerPlayer ''A'' 100 0)))
          = chips (newPokerPlayer ''A'' 100 0) - fst (addToBet 250 (newPokerPlayer ''A'' 100 0))"
       "0 < fst (addToBet 250 (newPokerPlayer ''A'' 100 0))
          \<and> chips (snd (addToBet 250 (newPokerPlayer ''A'' 100 0))) = 0
        \<longrightarrow> isAllIn (snd (addToBet 250 (newPokerPlayer ''A'' 100 0)))"
       "0 \<le> chips (snd (takeAction ''allin'' 0 facingBet (newPokerPlayer ''A'' 100 0)))"
    using stack_never_negative [OF h, of 250 "''allin''" 0 facingBet] v by simp_all
  with h v show ?thesis by simp
qed

text \<open>
  Claim C3 says that a request rejected as invalid fails with a named error and mutates
  nothing. \<open>takeAction\<close> does reject the three requests below with a named error, but only
  after it has recorded the action: the player who may not check, who names no action at
  all, or who raises below the minimum is left with \<open>hasActedThisRound\<close> set, the turn flag
  cleared and \<open>lastAction\<close> overwritten. (A request out of turn is rejected by the \<open>canAct\<close>
  guard before any assignment, as the last line shows.)
\<close>

theorem takeAction_mutates_before_rejecting:
  "takeAction ''check'' 0 facingBet playerOnTurn
     = (Inl CannotCheck,
        playerOnTurn\<lparr> lastAction := Some ''check'', hasActedThisRound := True, isCurrentTurn := False \<rparr>)
   \<and> takeAction ''dance'' 0 facingBet playerOnTurn
     = (Inl (InvalidAction ''dance''),
        playerOnTurn\<lparr> lastAction := Some ''dance'', hasActedThisRound := True, isCurrentTurn := False \<rparr>)
   \<and> takeAction ''raise'' 60 facingBet playerOnTurn
     = (Inl (RaiseBelowMin 100 60),
        playerOnTurn\<lparr> lastAction := Some ''raise'', lastActionAmount := 60,
                       hasActedThisRound := True, isCurrentTurn := False \<rparr>)
   \<and> snd (takeAction ''check'' 0 facingBet playerOnTurn) \<noteq> playerOnTurn
   \<and> takeAction ''check'' 0 (facingBet\<lparr> gsCurrentPlayerTurn := Some ''B'' \<rparr>) playerOnTurn
     = (Inl CannotAct, playerOnTurn)"
  by (simp add: takeAction_def canAct_def playerOnTurn_def facingBet_def newPokerPlayer_def
        toLowerCase_def toLowerChar_def check_def canCheck_def raise_def getMinRaise_def Let_def)

subsection \<open>The manager's entry point\<close>

text \<open>
  \<open>processPlayerAction\<close> validates with \<open>validateAction\<close> before it calls \<open>takeAction\<close>, and
  hands \<open>takeAction\<close> an object without \<^verbatim>\<open>currentPlayerTurn\<close>, so that \<open>canAct\<close> is false and
  \<open>takeAction\<close> throws at its guard. Every call through the manager is therefore rejected,
  whatever the round machinery, with the game as it was but for the error log.
\<close>

lemma putPlayer_found:
  "List.find (\<lambda>q. userId q = pid) ps = Some p \<Longrightarrow> putPlayer p ps = ps"
proof (induction ps)
  case Nil
  then show ?case by simp
next
  case (Cons q qs)
  show ?case
  proof (cases "userId q = pid")
    case True
    with Cons.prems have "q = p" by simp
    then show ?thesis by simp
  next
    case False
    with Cons.prems have f: "List.find (\<lambda>q. userId q = pid) qs = Some p" by simp
    then have "userId p = pid" by (auto simp: find_Some_iff)
    with False have "userId q \<noteq> userId p" by simp
    with Cons.IH [OF f] show ?thesis by simp
  qed
qed

lemma takeAction_without_turn:
  "takeAction action amt \<lparr> gsCurrentPlayerTurn = None, gsCurrentMaxBet = m, gsCurrentRound = r \<rparr> p
     = (Inl CannotAct, p)"
  by (simp add: takeAction_def canAct_def)

lemma logError_keeps:
  "logError c e gm = gm\<lparr> errorLog := errorLog (logError c e gm) \<rparr>"
  by (simp add: logError_def Let_def)

lemma processPlayerAction_rejects:
  "\<exists>e log. processPlayerAction roundMachinery pid action amt gm = Some (Inl e, gm\<lparr> errorLog := log \<rparr>)"
proof (cases "getPlayerById pid gm")
  case None
  have "gm = gm\<lparr> errorLog := errorLog gm \<rparr>" by simp
  then have "\<And>e. \<exists>e' log. Some (Inl e :: error + ActionResult, gm) = Some (Inl e', gm\<lparr> errorLog := log \<rparr>)"
    by blast
  with None show ?thesis
    by (simp add: processPlayerAction_def)
next
  case (Some player)
  then have put: "putPlayer player (players gm) = players gm"
    unfolding getPlayerById_def by (rule putPlayer_found)
  have same: "gm\<lparr> players := players gm \<rparr> = gm" by simp
  have triv: "\<And>e. \<exists>e' log. Some (Inl e :: error + ActionResult, gm) = Some (Inl e', gm\<lparr> errorLog := log \<rparr>)"
  proof -
    fix e :: error
    have "Some (Inl e :: error + ActionResult, gm) = Some (Inl e, gm\<lparr> errorLog := errorLog gm \<rparr>)" by simp
    then show "\<exists>e' log. Some (Inl e :: error + ActionResult, gm) = Some (Inl e', gm\<lparr> errorLog := log \<rparr>)"
      by blast
  qed
  have logged: "\<And>e. \<exists>e' log. Some (Inl e :: error + ActionResult, logError ''action_failed'' e gm)
                    = Some (Inl e', gm\<lparr> errorLog := log \<rparr>)"
  proof -
    fix e :: error
    have "Some (Inl e :: error + ActionResult, logError ''action_failed'' e gm)
            = Some (Inl e, gm\<lparr> errorLog := errorLog (logError ''action_failed'' e gm) \<rparr>)"
      using logError_keeps [of "''action_failed''" e gm] by simp
    then show "\<exists>e' log. Some (Inl e :: error + ActionResult, logError ''action_failed'' e gm)
                    = Some (Inl e', gm\<lparr> errorLog := log \<rparr>)"
      by blast
  qed
  show ?thesis
    using Some triv logged
    by (simp add: processPlayerAction_def rethrow_def takeAction_without_turn put same
             split: sum.splits)
qed

section \<open>Where the chips go\<close>

lemmas distribute_defs = distributeAllPots_def isPlayerEligible_def distributeToWinners_def
      calculateDistribution_def splitEntry_def jsRem_def markWon_def creditWinner_def
      saveToHistory_def

text \<open>
  Claim C1 says that each pot goes only to the highest-ranking of the listed winners that
  are eligible for it, so that in the scenario A, the best hand, receives the main pot of
  300 and B and C settle the side pot between them. \<open>distributeAllPots\<close> does not rank:
  it splits each pot evenly among all listed players eligible for it. Given the ranked list
  A, B, C it pays A 100 and B and C 300 each; given A alone (the list the game manager
  builds, the holders of the best hand) it pays A the main pot and leaves the side pot
  undistributed, 400 of the 700 chips staying in the ledger.
\<close>

theorem side_pot_scenario_distribution:
  "map_option dWinners (fst (distributeAllPots now [''A'', ''B'', ''C''] hev sidePotScenario))
     = Some [(''A'', 100), (''B'', 300), (''C'', 300)]
   \<and> map_option dWinners (fst (distributeAllPots now [''A''] hev sidePotScenario)) = Some [(''A'', 300)]
   \<and> map_option totalDistributed (fst (distributeAllPots now [''A''] hev sidePotScenario)) = Some 300
   \<and> map isDistributed (sidePots (snd (distributeAllPots now [''A''] hev sidePotScenario))) = [False]
   \<and> totalAmount (snd (distributeAllPots now [''A''] hev sidePotScenario)) = 700"
  by (simp add: scenario_defs distribute_defs Let_def upt_rec)

text \<open>
  Claim C2 says that stacks plus pot total stay constant during a hand and that the stacks
  are back at the pre-hand total after distribution. Two runs of the code, both short of it.
  The first forced bet of a hand: \<open>addToBet\<close> takes 10 chips off a stack of 1500, and
  \<open>addBet\<close> on the new ledger never returns with them. The showdown of a heads-up hand with
  3000 chips in play, 2800 in the stacks and 200 in the pot: \<open>distributePot\<close> ends in a
  \<open>TypeError\<close> with every stack as it was, 2800 in all, which \<open>validateGameIntegrity\<close>
  reports as an inconsistency against the 3000 it expects.
\<close>

theorem chips_leave_the_table:
  "addToBet 10 (newPokerPlayer ''A'' 1500 0)
     = (10, (newPokerPlayer ''A'' 1500 0)\<lparr> chips := 1490, bet := 10, totalBetThisHand := 10,
                                               lastBetAmount := 10 \<rparr>)
   \<and> addBet ''A'' 10 Infinity newPotManager = None
   \<and> getTotalChips (players headsUpTable) + totalAmount (potManager headsUpTable) = 3000
   \<and> fst (distributePot now [''A''] hev headsUpTable) = Inl TypeError
   \<and> players (snd (distributePot now [''A''] hev headsUpTable)) = players headsUpTable
   \<and> getTotalChips (players (snd (distributePot now [''A''] hev headsUpTable))) = 2800
   \<and> validateGameIntegrity (snd (distributePot now [''A''] hev headsUpTable))
       = [ChipInconsistency 2800 3000]"
proof -
  have a: "addToBet 10 (newPokerPlayer ''A'' 1500 0)
     = (10, (newPokerPlayer ''A'' 1500 0)\<lparr> chips := 1490, bet := 10, totalBetThisHand := 10,
                                               lastBetAmount := 10 \<rparr>)"
    by (simp add: addToBet_def newPokerPlayer_def Let_def)
  have b: "addBet ''A'' 10 Infinity newPotManager = None"
    by (rule addBet_fresh_diverges) simp
  have c: "getTotalChips (players headsUpTable) + totalAmount (potManager headsUpTable) = 3000"
    by (simp add: headsUpTable_def headsUpPot_def getTotalChips_def addToBet_def
          newPokerPlayer_def Let_def scenario_defs)
  have d: "fst (distributePot now [''A''] hev headsUpTable) = Inl TypeError"
    by (simp add: distributePot_def Let_def split_beta)
  have e: "players (snd (distributePot now [''A''] hev headsUpTable)) = players headsUpTable"
    by (simp add: distributePot_def Let_def split_beta)
  have f: "getTotalChips (players headsUpTable) = 2800"
    by (simp add: headsUpTable_def getTotalChips_def addToBet_def newPokerPlayer_def Let_def)
  have g: "validateGameIntegrity (snd (distributePot now [''A''] hev headsUpTable))
             = [ChipInconsistency 2800 3000]"
    by (simp add: validateGameIntegrity_def distributePot_def Let_def split_beta headsUpTable_def
          addToBet_def newPokerPlayer_def setAdd_def)
  from a b c d e f g show ?thesis by simp
qed

section \<open>The hand evaluator\<close>

lemma card_value_bounds: "2 \<le> card_value c \<and> card_value c \<le> 14"
  by (cases "rank c") (simp_all add: card_value_def)

lemma card_value_nonneg [simp]: "0 \<le> card_value c"
  using card_value_bounds [of c] by linarith

lemma card_value_le [simp]: "card_value c \<le> 14"
  using card_value_bounds [of c] by linarith

lemma kickerSum_nonneg: "\<forall>v \<in> set vs. 0 \<le> v \<Longrightarrow> 0 \<le> kickerSum i vs"
  by (induction vs arbitrary: i) simp_all

lemma kickerSum_le_max:
  "\<forall>v \<in> set vs. v \<le> 14 \<Longrightarrow> kickerSum i vs \<le> kickerSum i (replicate (length vs) 14)"
proof (induction vs arbitrary: i)
  case Nil
  then show ?case by simp
next
  case (Cons v vs)
  have f1: "v * 14 ^ (4 - i) \<le> 14 * 14 ^ (4 - i)"
    using Cons.prems by (intro mult_right_mono) simp_all
  have f2: "kickerSum (Suc i) vs \<le> kickerSum (Suc i) (replicate (length vs) 14)"
    using Cons by simp
  have e1: "kickerSum i (v # vs) = v * 14 ^ (4 - i) + kickerSum (Suc i) vs" by simp
  have e2: "kickerSum i (replicate (length (v # vs)) 14)
            = 14 * 14 ^ (4 - i) + kickerSum (Suc i) (replicate (length vs) 14)" by simp
  show ?case unfolding e1 e2 using f1 f2 by linarith
qed

lemma kickerSum_max_five: "n \<le> 5 \<Longrightarrow> kickerSum 0 (replicate n 14) \<le> 579194"
proof -
  assume "n \<le> 5"
  then have "n = 0 \<or> n = 1 \<or> n = 2 \<or> n = 3 \<or> n = 4 \<or> n = 5" by auto
  then show ?thesis by (auto simp: numeral_eq_Suc)
qed

lemma sortDesc_length [simp]: "length (sortDesc cs) = length cs"
  by (simp add: sortDesc_def)

lemma calculateHandValue_range:
  assumes "length cs \<le> 5"
  shows "r * 1000000 \<le> calculateHandValue cs r \<and> calculateHandValue cs r \<le> r * 1000000 + 579194"
proof -
  let ?vs = "map card_value (sortDesc cs)"
  have lo: "\<forall>v \<in> set ?vs. 0 \<le> v" by simp
  have hi: "\<forall>v \<in> set ?vs. v \<le> 14" by simp
  have len: "length ?vs \<le> 5" using assms by simp
  have "kickerSum 0 ?vs \<le> kickerSum 0 (replicate (length ?vs) 14)" by (rule kickerSum_le_max [OF hi])
  also have "\<dots> \<le> 579194" by (rule kickerSum_max_five [OF len])
  finally have "kickerSum 0 ?vs \<le> 579194" .
  moreover have "0 \<le> kickerSum 0 ?vs" by (rule kickerSum_nonneg [OF lo])
  ultimately show ?thesis by (simp add: calculateHandValue_def)
qed

lemma find_in_set: "List.find P xs = Some x \<Longrightarrow> x \<in> set xs"
  by (induction xs) (auto split: if_splits)

lemma map_filter_length: "length (List.map_filter f xs) \<le> length xs"
  by (simp add: List.map_filter_def)

lemma checkStraight_length: "checkStraight cs = Some r \<Longrightarrow> length r \<le> 5"
proof -
  assume a: "checkStraight cs = Some r"
  let ?u = "uniqueCards (sortDesc cs)"
  let ?w = "map (\<lambda>i. take 5 (drop i ?u)) [0 ..< length ?u - 4]"
  show ?thesis
  proof (cases "List.find (\<lambda>sq. isConsecutive (map card_value sq)) ?w")
    case None
    with a have "r = List.map_filter (\<lambda>v. List.find (\<lambda>c. card_value c = v) ?u) [14, 5, 4, 3, 2]"
      by (simp add: checkStraight_def Let_def split: if_splits)
    then have "length r \<le> length [14, 5, 4, 3, 2::int]"
      by (simp only: map_filter_length)
    then show ?thesis by simp
  next
    case (Some sq)
    with a have "r = sq" by (simp add: checkStraight_def Let_def)
    moreover from find_in_set [OF Some] have "length sq \<le> 5" by auto
    ultimately show ?thesis by simp
  qed
qed

lemma checkStraightFlush_length: "checkStraightFlush cs = Some r \<Longrightarrow> length r \<le> 5"
  by (auto simp: checkStraightFlush_def split: list.splits)

lemma checkRoyalFlush_length: "checkRoyalFlush cs = Some r \<Longrightarrow> length r \<le> 5"
  by (auto simp: checkRoyalFlush_def Let_def split: option.splits if_splits)

lemma checkFourOfAKind_length: "checkFourOfAKind cs = Some r \<Longrightarrow> length r \<le> 5"
  by (auto simp: checkFourOfAKind_def Let_def split: list.splits)

lemma checkFullHouse_length: "checkFullHouse cs = Some r \<Longrightarrow> length r \<le> 5"
  by (auto simp: checkFullHouse_def split: list.splits)

lemma checkFlush_length: "checkFlush cs = Some r \<Longrightarrow> length r \<le> 5"
  by (auto simp: checkFlush_def split: list.splits)

lemma checkThreeOfAKind_length: "checkThreeOfAKind cs = Some r \<Longrightarrow> length r \<le> 5"
  by (auto simp: checkThreeOfAKind_def Let_def split: list.splits)

lemma checkTwoPair_length: "checkTwoPair cs = Some r \<Longrightarrow> length r \<le> 5"
  by (auto simp: checkTwoPair_def Let_def split: if_splits)

lemma checkOnePair_length: "checkOnePair cs = Some r \<Longrightarrow> length r \<le> 5"
  by (auto simp: checkOnePair_def Let_def split: list.splits)

lemma checkHighCard_length: "length (checkHighCard cs) \<le> 5"
  by (simp add: checkHighCard_def)

lemma finalizeResult_band:
  "length r \<le> 5 \<Longrightarrow> finalizeResult r t = Inr h \<Longrightarrow> inCategoryBand h"
  using calculateHandValue_range [of "map the r" "handType_value t"]
  by (auto simp: finalizeResult_def inCategoryBand_def split: if_splits)

lemma store_band:
  "fst (store c k (finalizeResult r t)) = Inr h \<Longrightarrow> length r \<le> 5 \<longrightarrow> inCategoryBand h"
  using finalizeResult_band [of r t h]
  by (cases "finalizeResult r t") (simp_all add: store_def)

lemma store_band_Some:
  "fst (store c k (finalizeResult (map Some r) t)) = Inr h \<Longrightarrow> length r \<le> 5 \<longrightarrow> inCategoryBand h"
  using store_band [of c k "map Some r" t h] by simp

lemma evaluate_band:
  assumes "fst (evaluate Map.empty hnd community) = Inr h"
  shows "inCategoryBand h"
  using assms checkHighCard_length [of "sortDesc (hnd @ community)"]
  by (auto simp: evaluate_def Let_def split: option.splits
      dest: store_band store_band_Some
            checkRoyalFlush_length checkStraightFlush_length checkFourOfAKind_length
             checkFullHouse_length checkFlush_length checkStraight_length
             checkThreeOfAKind_length checkTwoPair_length checkOnePair_length)

lemma compareCards_antisym: "compareCards xs ys = - compareCards ys xs"
  by (induction xs ys rule: compareCards.induct) auto

lemma compareCards_refl: "compareCards xs xs = 0"
  by (induction xs) auto

lemma compareCards_trans:
  "compareCards xs ys = 1 \<Longrightarrow> compareCards ys zs = 1 \<Longrightarrow> compareCards xs zs = 1"
proof (induction xs ys arbitrary: zs rule: compareCards.induct)
  case (1 x xs y ys)
  then show ?case by (cases zs) (auto split: if_splits)
qed auto

lemma compareHands_antisym: "compareHands a b = - compareHands b a"
  using compareCards_antisym [of "map card_value (sortDesc (cards a))" "map card_value (sortDesc (cards b))"]
  by (auto simp: compareHands_def)

lemma compareHands_refl: "compareHands a a = 0"
  by (simp add: compareHands_def compareCards_refl)

lemma compareHands_gt:
  "compareHands a b = 1 \<longleftrightarrow>
     handRank a > handRank b
     \<or> (handRank a = handRank b \<and>
         (handValue a > handValue b
          \<or> (handValue a = handValue b
              \<and> compareCards (map card_value (sortDesc (cards a))) (map card_value (sortDesc (cards b))) = 1)))"
  by (auto simp: compareHands_def)

lemma compareHands_trans:
  assumes "compareHands a b = 1" "compareHands b c = 1"
  shows "compareHands a c = 1"
  using assms compareCards_trans
  unfolding compareHands_gt by (metis order_less_trans)

text \<open>
  Claim C4. \<open>compareHands\<close> is a total comparison (swapping the hands negates the result,
  a hand ties with itself, "beats" is transitive) in which the category dominates: a hand of
  a higher category beats a hand of a lower one whatever the cards. The value encodes this:
  for hands that \<open>evaluate\<close> returns, the higher category has the strictly higher value,
  because the category weighs 1000000 and five cards add at most 579194.
\<close>

theorem category_dominance:
  "(handRank h1 > handRank h2 \<longrightarrow> compareHands h1 h2 = 1 \<and> compareHands h2 h1 = -1)
   \<and> compareHands h1 h2 = - compareHands h2 h1
   \<and> compareHands h1 h1 = 0
   \<and> (compareHands h1 h2 = 1 \<and> compareHands h2 h3 = 1 \<longrightarrow> compareHands h1 h3 = 1)
   \<and> (fst (evaluate Map.empty hole1 board1) = Inr e1
        \<and> fst (evaluate Map.empty hole2 board2) = Inr e2
        \<and> handRank e1 > handRank e2
        \<longrightarrow> handValue e1 > handValue e2 \<and> compareHands e1 e2 = 1)"
proof -
  have dom: "handRank h1 > handRank h2 \<longrightarrow> compareHands h1 h2 = 1 \<and> compareHands h2 h1 = -1"
    by (simp add: compareHands_def)
  have val: "handValue e1 > handValue e2 \<and> compareHands e1 e2 = 1"
    if "fst (evaluate Map.empty hole1 board1) = Inr e1"
       "fst (evaluate Map.empty hole2 board2) = Inr e2" "handRank e1 > handRank e2"
  proof -
    from evaluate_band [OF that(1)] evaluate_band [OF that(2)] that(3)
    have "handValue e1 > handValue e2" by (simp add: inCategoryBand_def)
    with that(3) show ?thesis by (simp add: compareHands_def)
  qed
  from dom val compareHands_antisym [of h1 h2] compareHands_refl [of h1]
       compareHands_trans [of h1 h2 h3]
  show ?thesis by blast
qed

theorem category_dominance_witness:
  "fst (evaluate Map.empty flushHole flushBoard)
     = Inr \<lparr> cards = [card R9 HEARTS, card R7 HEARTS, card R5 HEARTS, card R3 HEARTS, card R2 HEARTS],
             hand = ''Flush'', handRank = 6, handValue = 6365976 \<rparr>
   \<and> fst (evaluate Map.empty broadwayHole broadwayBoard)
     = Inr \<lparr> cards = [card RA SPADES, card RK DIAMONDS, card RQ CLUBS, card RJ HEARTS, card R10 SPADES],
             hand = handType_name STRAIGHT, handRank = 5, handValue = 5576012 \<rparr>
   \<and> compareHands
        \<lparr> cards = [card R9 HEARTS, card R7 HEARTS, card R5 HEARTS, card R3 HEARTS, card R2 HEARTS],
          hand = ''Flush'', handRank = 6, handValue = 6365976 \<rparr>
        \<lparr> cards = [card RA SPADES, card RK DIAMONDS, card RQ CLUBS, card RJ HEARTS, card R10 SPADES],
          hand = handType_name STRAIGHT, handRank = 5, handValue = 5576012 \<rparr> = 1
   \<and> compareHands
        \<lparr> cards = [card RA SPADES, card RK DIAMONDS, card RQ CLUBS, card RJ HEARTS, card R10 SPADES],
          hand = handType_name STRAIGHT, handRank = 5, handValue = 5576012 \<rparr>
        \<lparr> cards = [card RK CLUBS, card RQ CLUBS, card RJ HEARTS, card R10 SPADES, card R9 SPADES],
          hand = handType_name STRAIGHT, handRank = 5, handValue = 5534641 \<rparr> = 1
   \<and> compareHands
        \<lparr> cards = [card R9 HEARTS, card R7 HEARTS, card R5 HEARTS, card R3 HEARTS, card R2 HEARTS],
          hand = ''Flush'', handRank = 6, handValue = 6365976 \<rparr>
        \<lparr> cards = [card RK CLUBS, card RQ CLUBS, card RJ HEARTS, card R10 SPADES, card R9 SPADES],
          hand = handType_name STRAIGHT, handRank = 5, handValue = 5534641 \<rparr> = 1"
proof -
  let ?f = "\<lparr> cards = [card R9 HEARTS, card R7 HEARTS, card R5 HEARTS, card R3 HEARTS, card R2 HEARTS],
             hand = ''Flush'', handRank = 6, handValue = 6365976 \<rparr>"
  let ?b = "\<lparr> cards = [card RA SPADES, card RK DIAMONDS, card RQ CLUBS, card RJ HEARTS, card R10 SPADES],
             hand = handType_name STRAIGHT, handRank = 5, handValue = 5576012 \<rparr>"
  let ?k = "\<lparr> cards = [card RK CLUBS, card RQ CLUBS, card RJ HEARTS, card R10 SPADES, card R9 SPADES],
          hand = handType_name STRAIGHT, handRank = 5, handValue = 5534641 \<rparr>"
  have f: "fst (evaluate Map.empty flushHole flushBoard) = Inr ?f" by code_simp
  have b: "fst (evaluate Map.empty broadwayHole broadwayBoard) = Inr ?b" by code_simp
  have bk: "compareHands ?b ?k = 1" by (simp add: compareHands_def)
  have r: "handRank ?f > handRank ?b" by simp
  note dominance = category_dominance [where ?h1.0 = ?f and ?h2.0 = ?b and ?h3.0 = ?k
      and ?hole1.0 = flushHole and ?board1.0 = flushBoard and ?e1.0 = ?f
      and ?hole2.0 = broadwayHole and ?board2.0 = broadwayBoard and ?e2.0 = ?b]
  from dominance r have fb: "compareHands ?f ?b = 1" by blast
  from dominance fb bk have fk: "compareHands ?f ?k = 1" by blast
  show ?thesis by (intro conjI) (rule f, rule b, rule fb, rule bk, rule fk)
qed

text \<open>
  Claim C5 says that for the hole cards A, 2 of spades and the board 3, 4 of spades, 5 of
  hearts, 9 of clubs, K of diamonds the evaluator returns a straight whose ace counts as 1,
  ranking below a six-high straight. \<open>evaluate\<close> does find the wheel and returns a straight
  of the cards A, 5, 4, 3, 2, but the ace keeps its value 14: the values of the best five
  are 14, 5, 4, 3, 2, the hand value is 5552372, and against the six-high straight 6, 5, 4,
  3, 2 (value 5245044) \<open>compareHands\<close> declares the wheel the winner.
\<close>

theorem wheel_ranks_above_six_high:
  "fst (evaluate Map.empty wheelHole wheelBoard)
     = Inr \<lparr> cards = [card RA SPADES, card R5 HEARTS, card R4 SPADES, card R3 SPADES, card R2 SPADES],
             hand = handType_name STRAIGHT, handRank = 5, handValue = 5552372 \<rparr>
   \<and> map card_value [card RA SPADES, card R5 HEARTS, card R4 SPADES, card R3 SPADES, card R2 SPADES]
     = [14, 5, 4, 3, 2]
   \<and> fst (evaluate Map.empty sixHighHole sixHighBoard)
     = Inr \<lparr> cards = [card R6 CLUBS, card R5 DIAMONDS, card R4 CLUBS, card R3 HEARTS, card R2 DIAMONDS],
             hand = handType_name STRAIGHT, handRank = 5, handValue = 5245044 \<rparr>
   \<and> compareHands
        \<lparr> cards = [card RA SPADES, card R5 HEARTS, card R4 SPADES, card R3 SPADES, card R2 SPADES],
          hand = handType_name STRAIGHT, handRank = 5, handValue = 5552372 \<rparr>
        \<lparr> cards = [card R6 CLUBS, card R5 DIAMONDS, card R4 CLUBS, card R3 HEARTS, card R2 DIAMONDS],
          hand = handType_name STRAIGHT, handRank = 5, handValue = 5245044 \<rparr> = 1"
proof -
  have w: "fst (evaluate Map.empty wheelHole wheelBoard)
     = Inr \<lparr> cards = [card RA SPADES, card R5 HEARTS, card R4 SPADES, card R3 SPADES, card R2 SPADES],
             hand = handType_name STRAIGHT, handRank = 5, handValue = 5552372 \<rparr>"
    by code_simp
  have s: "fst (evaluate Map.empty sixHighHole sixHighBoard)
     = Inr \<lparr> cards = [card R6 CLUBS, card R5 DIAMONDS, card R4 CLUBS, card R3 HEARTS, card R2 DIAMONDS],
             hand = handType_name STRAIGHT, handRank = 5, handValue = 5245044 \<rparr>"
    by code_simp
  have v: "map card_value [card RA SPADES, card R5 HEARTS, card R4 SPADES, card R3 SPADES, card R2 SPADES]
     = [14, 5, 4, 3, 2]"
    by (simp add: card_value_def card_def)
  from w s v show ?thesis by (simp add: compareHands_def)
qed

section \<open>Dealing beyond the cards that remain\<close>

lemma shuffleFrom_mset:
  "k \<le> length xs \<Longrightarrow> mset (shuffleFrom k rnd xs) = mset xs"
proof (induction k arbitrary: rnd xs)
  case 0
  then show ?case by simp
next
  case (Suc k)
  let ?ri = "(case rnd of [] \<Rightarrow> 0 | r # _ \<Rightarrow> r mod Suc k)"
  have ri: "?ri < length xs" using Suc.prems by (cases rnd) (auto intro: less_le_trans [OF mod_less_divisor])
  have k: "k < length xs" using Suc.prems by simp
  let ?ys = "xs[k := xs ! ?ri, ?ri := xs ! k]"
  have "mset ?ys = mset xs" using mset_swap [OF ri k] by simp
  moreover have "k \<le> length ?ys" using k by simp
  ultimately show ?case using Suc.IH [of ?ys "tl rnd"] by (simp add: Let_def)
qed

lemma shuffle_mset: "mset (shuffle rnd xs) = mset xs"
  by (simp add: shuffle_def shuffleFrom_mset)

lemma shuffle_length: "length (shuffle rnd xs) = length xs"
  using shuffle_mset [of rnd xs] by (metis size_mset)

lemma face_faceUp: "face (c\<lparr> faceUp := f \<rparr>) = face c"
  by (simp add: face_def)

text \<open>
  Claim C9 says that a deal of more cards than remain fails with an explicit error and never
  puts the dealt and burned cards back. The table deck does the opposite: asked for two
  cards with one left, it restores and shuffles, and (with the draws all 0) deals the ace and
  king of spades, the two cards that had been dealt before.
\<close>

theorem tableDeal_reshuffles_counterexample:
  "length (tCards midHandDeck) < 2
   \<and> tableDeal [] 2 True midHandDeck
     = ([tcard RA SPADES True, tcard RK SPADES True],
        \<lparr> tCards = [tcard R2 HEARTS False, tcard R2 HEARTS False, tcard R7 CLUBS False],
          tBurnedCards = [],
          tUsedCards = [tcard RA SPADES True, tcard RK SPADES True] \<rparr>)"
  by (simp add: tableDeal_def restoreUsedCards_def shuffle_def midHandDeck_def tcard_def Let_def
        numeral_eq_Suc)

text \<open>
  Claim C9, amended. When more cards are requested than remain, the engine deck
  (\<^verbatim>\<open>deal\<close> of poker-engine.js) fails with the explicit error that names both numbers and
  leaves the deck as it was. The table deck (\<^verbatim>\<open>deal\<close> of baralho-texas.js) does not fail: it
  puts the used and burned cards back under the remaining ones, shuffles, and deals from the
  restored deck as many cards as asked for, or all of them if there are fewer; the cards
  dealt carry the requested \<open>faceUp\<close>, they are the new used cards, no card is burned, and
  together with the cards left they are the cards of the three collections before.
\<close>

theorem deal_beyond_remaining:
  assumes "length (deckCards d) < cnt" and "length (tCards t) < cnt"
  shows "deal cnt d = (Inl (InsufficientCards (length (deckCards d)) cnt), d)
       \<and> length (fst (tableDeal rnd cnt fUp t))
           = min cnt (length (tCards t) + length (tUsedCards t) + length (tBurnedCards t))
       \<and> map faceUp (fst (tableDeal rnd cnt fUp t))
           = replicate (length (fst (tableDeal rnd cnt fUp t))) fUp
       \<and> tUsedCards (snd (tableDeal rnd cnt fUp t)) = fst (tableDeal rnd cnt fUp t)
       \<and> tBurnedCards (snd (tableDeal rnd cnt fUp t)) = []
       \<and> mset (map face (fst (tableDeal rnd cnt fUp t) @ tCards (snd (tableDeal rnd cnt fUp t))))
           = mset (map face (tCards t @ tUsedCards t @ tBurnedCards t))"
proof -
  let ?all = "tCards t @ tUsedCards t @ tBurnedCards t"
  let ?s = "shuffle rnd ?all"
  have td: "tableDeal rnd cnt fUp t
            = (map (\<lambda>c. c\<lparr> faceUp := fUp \<rparr>) (take cnt ?s),
               \<lparr> tCards = drop cnt ?s, tBurnedCards = [],
                 tUsedCards = map (\<lambda>c. c\<lparr> faceUp := fUp \<rparr>) (take cnt ?s) \<rparr>)"
    using assms(2) by (simp add: tableDeal_def restoreUsedCards_def Let_def)
  have e: "deal cnt d = (Inl (InsufficientCards (length (deckCards d)) cnt), d)"
    using assms(1) by (simp add: deal_def)
  have l: "length (fst (tableDeal rnd cnt fUp t))
           = min cnt (length (tCards t) + length (tUsedCards t) + length (tBurnedCards t))"
    by (simp add: td shuffle_length min.commute add.assoc)
  have f: "map faceUp (fst (tableDeal rnd cnt fUp t))
           = replicate (length (fst (tableDeal rnd cnt fUp t))) fUp"
    by (simp add: td map_replicate_const comp_def)
  have "map face (fst (tableDeal rnd cnt fUp t) @ tCards (snd (tableDeal rnd cnt fUp t)))
        = map face (take cnt ?s) @ map face (drop cnt ?s)"
    by (simp add: td face_faceUp)
  also have "\<dots> = map face ?s"
    by (simp only: map_append [symmetric] append_take_drop_id)
  finally have "mset (map face (fst (tableDeal rnd cnt fUp t) @ tCards (snd (tableDeal rnd cnt fUp t))))
        = image_mset face (mset ?s)" by simp
  then have m: "mset (map face (fst (tableDeal rnd cnt fUp t) @ tCards (snd (tableDeal rnd cnt fUp t))))
           = mset (map face ?all)"
    by (simp only: shuffle_mset mset_map)
  from e l f m show ?thesis by (simp add: td)
qed

theorem deal_beyond_remaining_witness:
  "length (deckCards midHandEngineDeck) < 2 \<and> length (tCards midHandDeck) < 2
   \<and> deal 2 midHandEngineDeck = (Inl (InsufficientCards 1 2), midHandEngineDeck)
   \<and> length (fst (tableDeal [3, 1, 4, 1, 5] 2 True midHandDeck)) = 2
   \<and> tBurnedCards (snd (tableDeal [3, 1, 4, 1, 5] 2 True midHandDeck)) = []"
proof -
  have h1: "length (deckCards midHandEngineDeck) < 2" by (simp add: midHandEngineDeck_def)
  have h2: "length (tCards midHandDeck) < 2" by (simp add: midHandDeck_def)
  have n: "length (deckCards midHandEngineDeck) = 1"
          "length (tCards midHandDeck) + length (tUsedCards midHandDeck)
             + length (tBurnedCards midHandDeck) = 5"
    by (simp_all add: midHandEngineDeck_def midHandDeck_def)
  from deal_beyond_remaining [OF h1 h2, of "[3, 1, 4, 1, 5]" True] h1 h2 n show ?thesis by simp
qed

end
